theory Spec2Isabelle
  imports Main
begin

section \<open>Severity levels\<close>

text \<open>
  \<^verbatim>\<open>zapcore.Level\<close> is a signed 8-bit integer. The package only compares levels and never
  does arithmetic on them, so a level is modelled as an \<open>int\<close>; the constants are those
  of the \<^verbatim>\<open>const\<close> block of logger.go (\<^verbatim>\<open>DebugLevel = iota - 1\<close>, and so on).
\<close>

type_synonym Level = int

definition DebugLevel :: Level where "DebugLevel = -1"
definition InfoLevel :: Level where "InfoLevel = 0"
definition WarnLevel :: Level where "WarnLevel = 1"
definition ErrorLevel :: Level where "ErrorLevel = 2"
definition DPanicLevel :: Level where "DPanicLevel = 3"
definition PanicLevel :: Level where "PanicLevel = 4"
definition FatalLevel :: Level where "FatalLevel = 5"

definition defaultDriver :: string where "defaultDriver = ''stdout''"
definition defaultLevel :: Level where "defaultLevel = InfoLevel"
definition defaultCallerSkip :: int where "defaultCallerSkip = 1"
definition defaultStacktraceLevel :: Level where "defaultStacktraceLevel = DPanicLevel"
definition TraceIDKey :: string where "TraceIDKey = ''trace_id''"

text \<open>\<^verbatim>\<open>time.Duration\<close> counts nanoseconds in a signed 64-bit integer.\<close>

type_synonym Duration = int

definition Hour :: Duration where "Hour = 3600 * 1000000000"

section \<open>The ambient context\<close>

text \<open>
  A Go interface value (\<^verbatim>\<open>any\<close>) carries its dynamic type. \<open>AOther T v\<close> stands for a
  value of any further type \<open>T\<close> (a named string type included), printed as \<open>v\<close>.
\<close>

datatype any = ANil | AString string | AInt int | ABool bool | AOther string string

text \<open>
  A \<^verbatim>\<open>context.Context\<close> is the chain of key/value pairs built by
  \<^verbatim>\<open>context.WithValue\<close>, innermost pair first; \<^verbatim>\<open>ctx.Value(k)\<close> walks the chain and
  yields nil when no pair has the key. The untyped constant \<^verbatim>\<open>TraceIDKey\<close> reaches
  \<^verbatim>\<open>Value\<close> as a key of dynamic type \<^verbatim>\<open>string\<close>.
\<close>

type_synonym "context" = "(any \<times> any) list"

definition Background :: "context" where
  "Background = []"

definition WithValue :: "context \<Rightarrow> any \<Rightarrow> any \<Rightarrow> context" where
  "WithValue parent k v = (k, v) # parent"

definition Value :: "context \<Rightarrow> any \<Rightarrow> any" where
  "Value ctx k = (case map_of ctx k of None \<Rightarrow> ANil | Some v \<Rightarrow> v)"

text \<open>
  \<^verbatim>\<open>
  func getTraceIDFromContext(ctx context.Context) string {
      if traceID, ok := ctx.Value(TraceIDKey).(string); ok {
          return traceID
      }
      return ""
  }
  \<close>
\<close>

definition getTraceIDFromContext :: "context \<Rightarrow> string" where
  "getTraceIDFromContext ctx =
     (case Value ctx (AString TraceIDKey) of
        AString traceID \<Rightarrow> traceID
      | _ \<Rightarrow> '''')"

section \<open>The logging engine the package delegates to\<close>

text \<open>
  The package is a facade over the zap library and the file-rotatelogs library. Their
  behaviour, as far as the facade relies on it, is written out here: fields, encoders,
  cores, loggers and write destinations.
\<close>

subsection \<open>Fields and encoded records\<close>

datatype FieldValue =
    StringType string
  | Int64Type int
  | BoolType bool
  | ErrorType string
  | DurationType Duration

datatype Field = Field (Key: string) (Val: FieldValue)

definition zap_String :: "string \<Rightarrow> string \<Rightarrow> Field" where
  "zap_String key val = Field key (StringType val)"

text \<open>
  An entry is what \<^verbatim>\<open>Logger.check\<close> assembles. The clock reading is an opaque instant;
  the caller position is kept as the number of frames skipped, and the stack trace as
  the fact that one was captured.
\<close>

record Entry =
  Level :: Level
  Time :: nat
  LoggerName :: string
  Message :: string
  Caller :: "int option"
  Stack :: bool

datatype jvalue =
    JString string
  | JInt int
  | JBool bool
  | JTime nat
  | JSeconds Duration
  | JCaller int
  | JStack

text \<open>Decimal digits of a natural number.\<close>

definition digit :: "nat \<Rightarrow> char" where
  "digit d = ''0123456789'' ! (d mod 10)"

fun itoa :: "nat \<Rightarrow> string" where
  "itoa n = (if n < 10 then [digit n] else itoa (n div 10) @ [digit (n mod 10)])"

declare itoa.simps [simp del]

text \<open>\<^verbatim>\<open>Level.CapitalString\<close>; a level outside the seven named ones prints as
  \<^verbatim>\<open>LEVEL(n)\<close>.\<close>

definition CapitalString :: "Level \<Rightarrow> string" where
  "CapitalString l =
     (if l = DebugLevel then ''DEBUG''
      else if l = InfoLevel then ''INFO''
      else if l = WarnLevel then ''WARN''
      else if l = ErrorLevel then ''ERROR''
      else if l = DPanicLevel then ''DPANIC''
      else if l = PanicLevel then ''PANIC''
      else if l = FatalLevel then ''FATAL''
      else ''LEVEL('' @ (if l < 0 then ''-'' @ itoa (nat (- l)) else itoa (nat l)) @ '')'')"

definition CapitalLevelEncoder :: "Level \<Rightarrow> jvalue" where
  "CapitalLevelEncoder l = JString (CapitalString l)"

definition ISO8601TimeEncoder :: "nat \<Rightarrow> jvalue" where
  "ISO8601TimeEncoder t = JTime t"

definition SecondsDurationEncoder :: "Duration \<Rightarrow> jvalue" where
  "SecondsDurationEncoder d = JSeconds d"

definition ShortCallerEncoder :: "int \<Rightarrow> jvalue" where
  "ShortCallerEncoder c = JCaller c"

text \<open>
  \<^verbatim>\<open>zapcore.EncoderConfig\<close>: the field-name mapping and the four encoder functions. The
  functions are taken to be present, as they are in every configuration the package
  builds or documents.
\<close>

record EncoderConfig =
  MessageKey :: string
  LevelKey :: string
  TimeKey :: string
  NameKey :: string
  CallerKey :: string
  StacktraceKey :: string
  LineEnding :: string
  EncodeLevel :: "Level \<Rightarrow> jvalue"
  EncodeTime :: "nat \<Rightarrow> jvalue"
  EncodeDuration :: "Duration \<Rightarrow> jvalue"
  EncodeCaller :: "int \<Rightarrow> jvalue"

definition DefaultLineEnding :: string where
  "DefaultLineEnding = [CHR 0x0A]"

text \<open>
  \<^verbatim>\<open>
  var DefaultEncoderConfig = zapcore.EncoderConfig{
      TimeKey: "T", LevelKey: "L", NameKey: "N", MessageKey: "M",
      CallerKey: "C", StacktraceKey: "S",
      LineEnding:     zapcore.DefaultLineEnding,
      EncodeLevel:    zapcore.CapitalLevelEncoder,
      EncodeTime:     zapcore.ISO8601TimeEncoder,
      EncodeDuration: zapcore.SecondsDurationEncoder,
      EncodeCaller:   zapcore.ShortCallerEncoder,
  }
  \<close>
\<close>

definition DefaultEncoderConfig :: EncoderConfig where
  "DefaultEncoderConfig =
     \<lparr> MessageKey = ''M'', LevelKey = ''L'', TimeKey = ''T'', NameKey = ''N'',
       CallerKey = ''C'', StacktraceKey = ''S'',
       LineEnding = DefaultLineEnding,
       EncodeLevel = CapitalLevelEncoder,
       EncodeTime = ISO8601TimeEncoder,
       EncodeDuration = SecondsDurationEncoder,
       EncodeCaller = ShortCallerEncoder \<rparr>"

datatype Encoder = JSONEncoder EncoderConfig | ConsoleEncoder EncoderConfig

definition NewJSONEncoder :: "EncoderConfig \<Rightarrow> Encoder" where
  "NewJSONEncoder cfg = JSONEncoder cfg"

definition NewConsoleEncoder :: "EncoderConfig \<Rightarrow> Encoder" where
  "NewConsoleEncoder cfg = ConsoleEncoder cfg"

text \<open>
  An encoded record is kept as the object it serialises, not as bytes. A JSON line is one
  object, held in three runs of members: those of the entry itself, the structured
  fields, and the stack trace. A console line is the tab-separated leading columns, the
  object of its structured fields, and the stack-trace mark.
\<close>

datatype encoded =
    JSONLine (entryOf: "(string \<times> jvalue) list")
                         (fieldsOf: "(string \<times> jvalue) list")
                         (stackOf: "(string \<times> jvalue) list")
  | ConsoleLine (columnsOf: "jvalue list") (fieldsOf: "(string \<times> jvalue) list")
                (stackMark: bool)

definition encodeField :: "EncoderConfig \<Rightarrow> Field \<Rightarrow> string \<times> jvalue" where
  "encodeField cfg f =
     (Key f,
      case Val f of
        StringType s \<Rightarrow> JString s
      | Int64Type i \<Rightarrow> JInt i
      | BoolType b \<Rightarrow> JBool b
      | ErrorType e \<Rightarrow> JString e
      | DurationType d \<Rightarrow> EncodeDuration cfg d)"

text \<open>
  \<^verbatim>\<open>jsonEncoder.EncodeEntry\<close>: level, time, logger name, caller, message, then the
  structured fields in order, then the stack trace; a member whose key is empty is left
  out.
\<close>

definition jsonEntry :: "EncoderConfig \<Rightarrow> Entry \<Rightarrow> (string \<times> jvalue) list" where
  "jsonEntry cfg ent =
     (if LevelKey cfg \<noteq> '''' then [(LevelKey cfg, EncodeLevel cfg (Level ent))] else [])
     @ (if TimeKey cfg \<noteq> '''' then [(TimeKey cfg, EncodeTime cfg (Time ent))] else [])
     @ (if LoggerName ent \<noteq> '''' \<and> NameKey cfg \<noteq> ''''
        then [(NameKey cfg, JString (LoggerName ent))] else [])
     @ (case Caller ent of
          Some c \<Rightarrow> (if CallerKey cfg \<noteq> '''' then [(CallerKey cfg, EncodeCaller cfg c)] else [])
        | None \<Rightarrow> [])
     @ (if MessageKey cfg \<noteq> '''' then [(MessageKey cfg, JString (Message ent))] else [])"

text \<open>\<^verbatim>\<open>consoleEncoder.EncodeEntry\<close> puts the time before the level and prints no keys.\<close>

definition consoleColumns :: "EncoderConfig \<Rightarrow> Entry \<Rightarrow> jvalue list" where
  "consoleColumns cfg ent =
     (if TimeKey cfg \<noteq> '''' then [EncodeTime cfg (Time ent)] else [])
     @ (if LevelKey cfg \<noteq> '''' then [EncodeLevel cfg (Level ent)] else [])
     @ (if LoggerName ent \<noteq> '''' \<and> NameKey cfg \<noteq> '''' then [JString (LoggerName ent)] else [])
     @ (case Caller ent of
          Some c \<Rightarrow> (if CallerKey cfg \<noteq> '''' then [EncodeCaller cfg c] else [])
        | None \<Rightarrow> [])
     @ (if MessageKey cfg \<noteq> '''' then [JString (Message ent)] else [])"

definition EncodeEntry :: "Encoder \<Rightarrow> Entry \<Rightarrow> Field list \<Rightarrow> encoded" where
  "EncodeEntry enc ent fs =
     (case enc of
        JSONEncoder cfg \<Rightarrow>
          JSONLine (jsonEntry cfg ent) (map (encodeField cfg) fs)
                   (if Stack ent \<and> StacktraceKey cfg \<noteq> '''' then [(StacktraceKey cfg, JStack)]
                    else [])
      | ConsoleEncoder cfg \<Rightarrow>
          ConsoleLine (consoleColumns cfg ent) (map (encodeField cfg) fs)
                      (Stack ent \<and> StacktraceKey cfg \<noteq> ''''))"

text \<open>
  What a JSON parser reads back from a line into a map: from a JSON line the members in
  order, a later member replacing an earlier one of the same key; a console line is not
  JSON and does not parse.
\<close>

definition unmarshal :: "encoded \<Rightarrow> (string \<rightharpoonup> jvalue) option" where
  "unmarshal e =
     (case e of
        JSONLine ent fs st \<Rightarrow> Some (map_of (rev (ent @ fs @ st)))
      | ConsoleLine cols fs st \<Rightarrow> None)"

text \<open>The value read back under a key, if the line parses and has the key.\<close>

definition parsed :: "encoded \<Rightarrow> string \<Rightarrow> jvalue option" where
  "parsed e k = (case unmarshal e of None \<Rightarrow> None | Some obj \<Rightarrow> obj k)"

subsection \<open>Date patterns of the rotation library\<close>

text \<open>
  The instant that names a log file, as the rotation library sees it: the local clock
  reading truncated to the rotation interval. Year, month and day are numbers; what any
  other conversion prints for this instant is carried along as text.
\<close>

record Date =
  year :: nat
  month :: nat
  day :: nat
  other :: "char \<Rightarrow> string"

datatype piece = Verbatim char | Directive char

text \<open>The conversion characters the strftime library documents.\<close>

definition directives :: "char list" where
  "directives = ''AaBbCcDdeFHIjklMmnpRrSTtUuVvWwXxYyZz%''"

text \<open>
  Compiling a pattern: text up to a \<open>%\<close> is verbatim, the byte after a \<open>%\<close> selects
  the conversion; a \<open>%\<close> at the very end and an unknown conversion are errors.
\<close>

fun compile :: "string \<Rightarrow> string + piece list" where
  "compile [] = Inr []"
| "compile [c] =
     (if c = CHR ''%'' then Inl ''stray % at the end of pattern'' else Inr [Verbatim c])"
| "compile (c # v # rest) =
     (if c = CHR ''%''
      then (if v \<in> set directives
            then (case compile rest of Inl e \<Rightarrow> Inl e | Inr ps \<Rightarrow> Inr (Directive v # ps))
            else Inl ''failed to compile pattern: unknown specification'')
      else (case compile (v # rest) of Inl e \<Rightarrow> Inl e | Inr ps \<Rightarrow> Inr (Verbatim c # ps)))"

text \<open>A number printed in at least \<open>w\<close> digits, zero-padded on the left.\<close>

definition zeroPad :: "nat \<Rightarrow> nat \<Rightarrow> string" where
  "zeroPad w n = replicate (w - length (itoa n)) (CHR ''0'') @ itoa n"

definition formatPiece :: "Date \<Rightarrow> piece \<Rightarrow> string" where
  "formatPiece d p =
     (case p of
        Verbatim c \<Rightarrow> [c]
      | Directive v \<Rightarrow>
          (if v = CHR ''Y'' then zeroPad 4 (year d)
           else if v = CHR ''m'' then zeroPad 2 (month d)
           else if v = CHR ''d'' then zeroPad 2 (day d)
           else if v = CHR ''%'' then ''%''
           else other d v))"

definition FormatString :: "piece list \<Rightarrow> Date \<Rightarrow> string" where
  "FormatString ps d = concat (map (formatPiece d) ps)"

text \<open>
  \<^verbatim>\<open>rotatelogs.New(pattern, WithMaxAge(a), WithRotationTime(r))\<close> compiles the whole pattern
  and fails exactly when it does not compile; no file is opened before the first write.
  At a write the file name is the compiled pattern formatted at the rotation base
  (\<^verbatim>\<open>genFilename\<close>).
\<close>

record RotateLogs =
  pattern :: "piece list"
  hookMaxAge :: Duration
  hookRotationTime :: Duration

definition rotatelogs_New :: "string \<Rightarrow> Duration \<Rightarrow> Duration \<Rightarrow> string + RotateLogs" where
  "rotatelogs_New p a r =
     (case compile p of
        Inl e \<Rightarrow> Inl (''invalid strftime pattern: '' @ e)
      | Inr ps \<Rightarrow> Inr \<lparr> pattern = ps, hookMaxAge = a, hookRotationTime = r \<rparr>)"

definition genFilename :: "RotateLogs \<Rightarrow> Date \<Rightarrow> string" where
  "genFilename rl d = FormatString (pattern rl) d"

subsection \<open>The world: heap cells and write destinations\<close>

text \<open>
  How a call ends: it returns, it panics with a message, or it exits the process.
\<close>

datatype 'a outcome = Returned 'a | Panicked string | Exited int

definition nilDereference :: string where
  "nilDereference = ''invalid memory address or nil pointer dereference''"

datatype LevelEnabler = AtomicLevel nat | ConstLevel Level

datatype WriteSyncer = Stdout | Stderr | Hook RotateLogs

text \<open>Where bytes end up: one of the two standard streams, or the file of a given name.\<close>

datatype sink = StdoutStream | StderrStream | LogFile string

text \<open>\<^verbatim>\<open>zapcore.ioCore\<close>, with the fields already added to its encoder by \<^verbatim>\<open>With\<close>.\<close>

record Core =
  enab :: LevelEnabler
  enc :: Encoder
  out :: WriteSyncer
  ctxFields :: "Field list"

record Logger =
  core :: Core
  name :: string
  addCaller :: bool
  callerSkip :: int
  addStack :: Level
  errorOutput :: WriteSyncer

text \<open>
  \<^verbatim>\<open>
  Manager struct {
      Zap   *zap.Logger     // Underlying Zap logger instance
      level zap.AtomicLevel // Atomic level for dynamic level changes
  }
  \<close>
  \<open>Zap\<close> is the address of a logger. A \<^verbatim>\<open>zap.AtomicLevel\<close> wraps a pointer to a cell; the
  zero value, which a \<^verbatim>\<open>Manager\<close> literal without the field has, wraps nil.
\<close>

record Manager =
  Zap :: nat
  level :: "nat option"

text \<open>
  Objects that are shared and reached through pointers live in three heaps, addressed by
  position; allocation appends. \<open>written\<close> is everything written so far, in order, each
  record with the place it went to. \<open>clock\<close> is what \<^verbatim>\<open>time.Now()\<close> reads,
  \<open>rotationBase\<close> the instant by which the rotation library names the file.
\<close>

record world =
  levels :: "Level list"
  loggers :: "Logger list"
  managers :: "Manager list"
  written :: "(sink \<times> encoded) list"
  clock :: nat
  rotationBase :: Date



text \<open>What has been written between an earlier world and a later one.\<close>

definition emitted :: "world \<Rightarrow> world \<Rightarrow> (sink \<times> encoded) list" where
  "emitted w w' = drop (length (written w)) (written w')"

definition deref :: "'a list \<Rightarrow> nat \<Rightarrow> 'a option" where
  "deref heap p = (if p < length heap then Some (heap ! p) else None)"

definition NewAtomicLevelAt :: "Level \<Rightarrow> world \<Rightarrow> world \<times> nat" where
  "NewAtomicLevelAt l w = (w\<lparr>levels := levels w @ [l]\<rparr>, length (levels w))"

definition AtomicLevel_SetLevel :: "nat option \<Rightarrow> Level \<Rightarrow> world \<Rightarrow> world \<times> unit outcome" where
  "AtomicLevel_SetLevel lvl l w =
     (case lvl of
        None \<Rightarrow> (w, Panicked nilDereference)
      | Some p \<Rightarrow>
          (if p < length (levels w) then (w\<lparr>levels := (levels w)[p := l]\<rparr>, Returned ())
           else (w, Panicked nilDereference)))"

text \<open>\<^verbatim>\<open>Enabled(lvl)\<close> is \<^verbatim>\<open>lvl >= threshold\<close>, the threshold read at the moment of the call.\<close>

definition Enabled :: "world \<Rightarrow> LevelEnabler \<Rightarrow> Level \<Rightarrow> bool option" where
  "Enabled w e lvl =
     (case e of
        ConstLevel l \<Rightarrow> Some (l \<le> lvl)
      | AtomicLevel p \<Rightarrow> map_option (\<lambda>l. l \<le> lvl) (deref (levels w) p))"

text \<open>
  A write to a rotation hook goes to the file the hook's pattern names at the current
  rotation base; the file is taken to open.
\<close>

definition target :: "WriteSyncer \<Rightarrow> Date \<Rightarrow> sink" where
  "target ws d =
     (case ws of
        Stdout \<Rightarrow> StdoutStream
      | Stderr \<Rightarrow> StderrStream
      | Hook rl \<Rightarrow> LogFile (genFilename rl d))"

definition Write :: "WriteSyncer \<Rightarrow> encoded \<Rightarrow> world \<Rightarrow> world" where
  "Write ws e w = w\<lparr>written := written w @ [(target ws (rotationBase w), e)]\<rparr>"

subsection \<open>Cores and loggers\<close>

definition NewCore :: "Encoder \<Rightarrow> WriteSyncer \<Rightarrow> LevelEnabler \<Rightarrow> Core" where
  "NewCore e ws en = \<lparr> enab = en, enc = e, out = ws, ctxFields = [] \<rparr>"

definition Core_With :: "Core \<Rightarrow> Field list \<Rightarrow> Core" where
  "Core_With c fs = c\<lparr>ctxFields := ctxFields c @ fs\<rparr>"

definition AddCaller :: "Logger \<Rightarrow> Logger" where
  "AddCaller l = l\<lparr>addCaller := True\<rparr>"

definition AddCallerSkip :: "int \<Rightarrow> Logger \<Rightarrow> Logger" where
  "AddCallerSkip n l = l\<lparr>callerSkip := callerSkip l + n\<rparr>"

definition ErrorOutput :: "WriteSyncer \<Rightarrow> Logger \<Rightarrow> Logger" where
  "ErrorOutput ws l = l\<lparr>errorOutput := ws\<rparr>"

definition AddStacktrace :: "Level \<Rightarrow> Logger \<Rightarrow> Logger" where
  "AddStacktrace lvl l = l\<lparr>addStack := lvl\<rparr>"

definition allocLogger :: "Logger \<Rightarrow> world \<Rightarrow> world \<times> nat" where
  "allocLogger l w = (w\<lparr>loggers := loggers w @ [l]\<rparr>, length (loggers w))"

text \<open>
  \<^verbatim>\<open>zap.New(core, options...)\<close>: a logger that writes its own errors to standard error
  and captures no stack trace, then each option applied in turn.
\<close>

definition zap_New :: "Core \<Rightarrow> (Logger \<Rightarrow> Logger) list \<Rightarrow> world \<Rightarrow> world \<times> nat" where
  "zap_New c options w =
     allocLogger
       (fold (\<lambda>f l. f l) options
          \<lparr> core = c, name = '''', addCaller = False, callerSkip = 0,
            addStack = FatalLevel + 1, errorOutput = Stderr \<rparr>) w"

text \<open>
  \<^verbatim>\<open>Logger.With\<close> and \<^verbatim>\<open>Logger.Named\<close> of the zap library hand back the receiver itself
  when given no field, or the empty name; otherwise they allocate a clone and change the
  clone:
  \<^verbatim>\<open>
  func (log *Logger) With(fields ...Field) *Logger {
      if len(fields) == 0 { return log }
      l := log.clone()
      l.core = l.core.With(fields)
      return l
  }
  func (log *Logger) Named(s string) *Logger {
      if s == "" { return log }
      l := log.clone()
      if log.name == "" { l.name = s } else { l.name = strings.Join([]string{l.name, s}, ".") }
      return l
  }
  \<close>
\<close>

definition Logger_With :: "nat \<Rightarrow> Field list \<Rightarrow> world \<Rightarrow> world \<times> nat outcome" where
  "Logger_With p fs w =
     (if fs = [] then (w, Returned p)
      else (case deref (loggers w) p of
              None \<Rightarrow> (w, Panicked nilDereference)
            | Some l \<Rightarrow>
                (let (w', q) = allocLogger (l\<lparr>core := Core_With (core l) fs\<rparr>) w
                 in (w', Returned q))))"

definition Logger_Named :: "nat \<Rightarrow> string \<Rightarrow> world \<Rightarrow> world \<times> nat outcome" where
  "Logger_Named p s w =
     (if s = '''' then (w, Returned p)
      else (case deref (loggers w) p of
              None \<Rightarrow> (w, Panicked nilDereference)
            | Some l \<Rightarrow>
                (let (w', q) =
                       allocLogger (l\<lparr>name := (if name l = '''' then s else name l @ ''.'' @ s)\<rparr>) w
                 in (w', Returned q))))"

text \<open>
  A leveled call on a logger of the zap library (\<^verbatim>\<open>Logger.Info(msg, fields...)\<close> is this at
  \<open>InfoLevel\<close>, and likewise the others):
  \<^verbatim>\<open>
  if ce := log.check(InfoLevel, msg); ce != nil { ce.Write(fields...) }
  \<close>
  \<^verbatim>\<open>check\<close> asks the core whether the level is enabled (\<^verbatim>\<open>ioCore.Check\<close> adds the core to
  the checked entry exactly when \<^verbatim>\<open>c.Enabled(ent.Level)\<close>); an enabled entry is encoded with
  the core's fields followed by the call's and written to the core's destination. After
  the write a Panic-level call panics with the message and a Fatal-level call exits with
  status 1, whether or not anything was written.
\<close>

definition Logger_log :: "nat \<Rightarrow> Level \<Rightarrow> string \<Rightarrow> Field list \<Rightarrow> world \<Rightarrow> world \<times> unit outcome" where
  "Logger_log p lvl msg fs w =
     (case deref (loggers w) p of
        None \<Rightarrow> (w, Panicked nilDereference)
      | Some l \<Rightarrow>
          (case Enabled w (enab (core l)) lvl of
             None \<Rightarrow> (w, Panicked nilDereference)
           | Some en \<Rightarrow>
               (let ent = \<lparr> Level = lvl, Time = clock w, LoggerName = name l, Message = msg,
                            Caller = (if addCaller l then Some (callerSkip l) else None),
                            Stack = (addStack l \<le> lvl) \<rparr>;
                    w' = (if en
                          then Write (out (core l))
                                 (EncodeEntry (enc (core l)) ent (ctxFields (core l) @ fs)) w
                          else w)
                in (w', if lvl = PanicLevel then Panicked msg
                        else if lvl = FatalLevel then Exited 1
                        else Returned ()))))"

section \<open>Options\<close>

text \<open>
  \<^verbatim>\<open>
  option struct {
      driver          string
      level           zapcore.Level
      logPath         string
      encoderConfig   zapcore.EncoderConfig
      callerSkip      int
      maxAge          time.Duration
      rotationTime    time.Duration
      useColor        bool
      stacktraceLevel zapcore.Level
  }
  \<close>
\<close>

record option_struct =
  driver :: string
  level :: Level
  logPath :: string
  encoderConfig :: EncoderConfig
  callerSkip :: int
  maxAge :: Duration
  rotationTime :: Duration
  useColor :: bool
  stacktraceLevel :: Level

text \<open>
  \<^verbatim>\<open>type Option func(*option)\<close>: an option updates the struct in place, or panics; the
  left summand is the panic's message.
\<close>

type_synonym Option = "option_struct \<Rightarrow> string + option_struct"

definition WithDriver :: "string \<Rightarrow> Option" where
  "WithDriver d = (\<lambda>opt. Inr (opt\<lparr>driver := d\<rparr>))"

definition WithLevel :: "string \<Rightarrow> Option" where
  "WithLevel lv = (\<lambda>opt.
     if lv = ''debug'' then Inr (opt\<lparr>level := DebugLevel\<rparr>)
     else if lv = ''info'' then Inr (opt\<lparr>level := InfoLevel\<rparr>)
     else if lv = ''warn'' then Inr (opt\<lparr>level := WarnLevel\<rparr>)
     else if lv = ''error'' then Inr (opt\<lparr>level := ErrorLevel\<rparr>)
     else if lv = ''dpanic'' then Inr (opt\<lparr>level := DPanicLevel\<rparr>)
     else if lv = ''panic'' then Inr (opt\<lparr>level := PanicLevel\<rparr>)
     else if lv = ''fatal'' then Inr (opt\<lparr>level := FatalLevel\<rparr>)
     else Inl ''invalid log level'')"


definition WithEncoderConfig :: "EncoderConfig \<Rightarrow> Option" where
  "WithEncoderConfig config = (\<lambda>opt. Inr (opt\<lparr>encoderConfig := config\<rparr>))"

definition WithCallerSkip :: "int \<Rightarrow> Option" where
  "WithCallerSkip skip = (\<lambda>opt. Inr (opt\<lparr>callerSkip := skip\<rparr>))"

definition WithMaxAge :: "Duration \<Rightarrow> Option" where
  "WithMaxAge a = (\<lambda>opt. Inr (opt\<lparr>maxAge := a\<rparr>))"

definition WithRotationTime :: "Duration \<Rightarrow> Option" where
  "WithRotationTime r = (\<lambda>opt. Inr (opt\<lparr>rotationTime := r\<rparr>))"

definition WithColor :: "bool \<Rightarrow> Option" where
  "WithColor c = (\<lambda>opt. Inr (opt\<lparr>useColor := c\<rparr>))"

definition WithStacktraceLevel :: "string \<Rightarrow> Option" where
  "WithStacktraceLevel lv = (\<lambda>opt.
     if lv = ''debug'' then Inr (opt\<lparr>stacktraceLevel := DebugLevel\<rparr>)
     else if lv = ''info'' then Inr (opt\<lparr>stacktraceLevel := InfoLevel\<rparr>)
     else if lv = ''warn'' then Inr (opt\<lparr>stacktraceLevel := WarnLevel\<rparr>)
     else if lv = ''error'' then Inr (opt\<lparr>stacktraceLevel := ErrorLevel\<rparr>)
     else if lv = ''dpanic'' then Inr (opt\<lparr>stacktraceLevel := DPanicLevel\<rparr>)
     else if lv = ''panic'' then Inr (opt\<lparr>stacktraceLevel := PanicLevel\<rparr>)
     else if lv = ''fatal'' then Inr (opt\<lparr>stacktraceLevel := FatalLevel\<rparr>)
     else Inl ''invalid log level'')"

section \<open>Construction\<close>

text \<open>
  The literal \<^verbatim>\<open>New\<close> starts from. \<^verbatim>\<open>logPath\<close> and \<^verbatim>\<open>useColor\<close> are not named in it
  and take their zero values.
\<close>

definition initialOption :: option_struct where
  "initialOption =
     \<lparr> driver = defaultDriver,
       level = defaultLevel,
       logPath = '''',
       encoderConfig = DefaultEncoderConfig,
       callerSkip = defaultCallerSkip,
       maxAge = 7 * 24 * Hour,
       rotationTime = 24 * Hour,
       useColor = False,
       stacktraceLevel = defaultStacktraceLevel \<rparr>"

text \<open>\<^verbatim>\<open>for _, f := range opts { f(opt) }\<close>; a panic ends the loop.\<close>

fun applyOptions :: "Option list \<Rightarrow> option_struct \<Rightarrow> string + option_struct" where
  "applyOptions [] opt = Inr opt"
| "applyOptions (f # fs) opt =
     (case f opt of Inl p \<Rightarrow> Inl p | Inr opt' \<Rightarrow> applyOptions fs opt')"

text \<open>
  \<^verbatim>\<open>
  hook, err := rotatelogs.New(opt.logPath+"%Y-%m-%d.log",
      rotatelogs.WithMaxAge(opt.maxAge), rotatelogs.WithRotationTime(opt.rotationTime))
  if err != nil { return nil, err }
  return zapcore.NewCore(encoder, zapcore.AddSync(hook), level), nil
  \<close>
\<close>

definition newFileCore :: "option_struct \<Rightarrow> Encoder \<Rightarrow> LevelEnabler \<Rightarrow> string + Core" where
  "newFileCore opt encoder lvl =
     (case rotatelogs_New (logPath opt @ ''%Y-%m-%d.log'') (maxAge opt) (rotationTime opt) of
        Inl err \<Rightarrow> Inl err
      | Inr hook \<Rightarrow> Inr (NewCore encoder (Hook hook) lvl))"

text \<open>
  The tail of \<^verbatim>\<open>New\<close>: build the zap logger over the core and return the address of a
  new \<^verbatim>\<open>Manager\<close> holding it and the atomic level.
\<close>

definition newManager :: "option_struct \<Rightarrow> Core \<Rightarrow> nat \<Rightarrow> world \<Rightarrow> world \<times> nat" where
  "newManager opt c lvl w =
     (let (w1, logger) =
            zap_New c [AddCaller, AddCallerSkip (callerSkip opt), ErrorOutput Stderr,
                       AddStacktrace (stacktraceLevel opt)] w
      in (w1\<lparr>managers := managers w1 @ [\<lparr> Zap = logger, level = Some lvl \<rparr>]\<rparr>,
          length (managers w1)))"

text \<open>
  \<^verbatim>\<open>New(opts ...Option) (*Manager, error)\<close>. The result pair is the manager's address, if
  any, and the error message, if any.
\<close>

definition New :: "Option list \<Rightarrow> world \<Rightarrow> world \<times> (nat option \<times> string option) outcome" where
  "New opts w =
     (case applyOptions opts initialOption of
        Inl p \<Rightarrow> (w, Panicked p)
      | Inr opt \<Rightarrow>
          (let (w1, lvl) = NewAtomicLevelAt (level opt) w;
               encoder = (if useColor opt then NewConsoleEncoder (encoderConfig opt)
                          else NewJSONEncoder (encoderConfig opt))
           in if driver opt = ''stdout''
              then (let (w2, m) = newManager opt (NewCore encoder Stdout (AtomicLevel lvl)) lvl w1
                    in (w2, Returned (Some m, None)))
              else if driver opt = ''file''
              then (case newFileCore opt encoder (AtomicLevel lvl) of
                      Inl err \<Rightarrow>
                        (w1, Returned (None, Some (''failed to create file core: '' @ err)))
                    | Inr c \<Rightarrow>
                        (let (w2, m) = newManager opt c lvl w1
                         in (w2, Returned (Some m, None))))
              else (w1, Returned (None, Some (''unknown driver: '' @ driver opt)))))"

section \<open>The Manager's methods\<close>

text \<open>
  \<^verbatim>\<open>
  func (m *Manager) getLoggerWithTraceID(ctx context.Context) *zap.Logger {
      traceID := getTraceIDFromContext(ctx)
      if traceID == "" {
          return m.Zap
      }
      return m.Zap.With(zap.String("TraceID", traceID))
  }
  \<close>
\<close>

definition getLoggerWithTraceID :: "nat \<Rightarrow> context \<Rightarrow> world \<Rightarrow> world \<times> nat outcome" where
  "getLoggerWithTraceID m ctx w =
     (case deref (managers w) m of
        None \<Rightarrow> (w, Panicked nilDereference)
      | Some mgr \<Rightarrow>
          (let traceID = getTraceIDFromContext ctx
           in if traceID = '''' then (w, Returned (Zap mgr))
              else Logger_With (Zap mgr) [zap_String ''TraceID'' traceID] w))"

text \<open>\<^verbatim>\<open>func (m *Manager) SetLevel(level zapcore.Level) { m.level.SetLevel(level) }\<close>\<close>

definition SetLevel :: "nat \<Rightarrow> Level \<Rightarrow> world \<Rightarrow> world \<times> unit outcome" where
  "SetLevel m lv w =
     (case deref (managers w) m of
        None \<Rightarrow> (w, Panicked nilDereference)
      | Some mgr \<Rightarrow> AtomicLevel_SetLevel (Manager.level mgr) lv w)"

text \<open>
  The six leveled methods share one body,
  \<^verbatim>\<open>logger := m.getLoggerWithTraceID(ctx); logger.X(msg, fields...)\<close>, and differ in the
  level \<^verbatim>\<open>X\<close> only.
\<close>

definition leveled :: "Level \<Rightarrow> nat \<Rightarrow> context \<Rightarrow> string \<Rightarrow> Field list \<Rightarrow> world \<Rightarrow> world \<times> unit outcome" where
  "leveled lvl m ctx msg fs w =
     (case getLoggerWithTraceID m ctx w of
        (w1, Returned logger) \<Rightarrow> Logger_log logger lvl msg fs w1
      | (w1, Panicked p) \<Rightarrow> (w1, Panicked p)
      | (w1, Exited c) \<Rightarrow> (w1, Exited c))"

definition Info :: "nat \<Rightarrow> context \<Rightarrow> string \<Rightarrow> Field list \<Rightarrow> world \<Rightarrow> world \<times> unit outcome" where
  "Info m ctx msg fs w = leveled InfoLevel m ctx msg fs w"

definition Error :: "nat \<Rightarrow> context \<Rightarrow> string \<Rightarrow> Field list \<Rightarrow> world \<Rightarrow> world \<times> unit outcome" where
  "Error m ctx msg fs w = leveled ErrorLevel m ctx msg fs w"

definition Debug :: "nat \<Rightarrow> context \<Rightarrow> string \<Rightarrow> Field list \<Rightarrow> world \<Rightarrow> world \<times> unit outcome" where
  "Debug m ctx msg fs w = leveled DebugLevel m ctx msg fs w"

definition Warn :: "nat \<Rightarrow> context \<Rightarrow> string \<Rightarrow> Field list \<Rightarrow> world \<Rightarrow> world \<times> unit outcome" where
  "Warn m ctx msg fs w = leveled WarnLevel m ctx msg fs w"

definition Fatal :: "nat \<Rightarrow> context \<Rightarrow> string \<Rightarrow> Field list \<Rightarrow> world \<Rightarrow> world \<times> unit outcome" where
  "Fatal m ctx msg fs w = leveled FatalLevel m ctx msg fs w"

definition Panic :: "nat \<Rightarrow> context \<Rightarrow> string \<Rightarrow> Field list \<Rightarrow> world \<Rightarrow> world \<times> unit outcome" where
  "Panic m ctx msg fs w = leveled PanicLevel m ctx msg fs w"

text \<open>
  \<^verbatim>\<open>func (m *Manager) Named(name string) *zap.Logger { return m.Zap.Named(name) }\<close> and
  \<^verbatim>\<open>func (m *Manager) With(fields ...zap.Field) *zap.Logger { return m.Zap.With(fields...) }\<close>
\<close>

definition Named :: "nat \<Rightarrow> string \<Rightarrow> world \<Rightarrow> world \<times> nat outcome" where
  "Named m s w =
     (case deref (managers w) m of
        None \<Rightarrow> (w, Panicked nilDereference)
      | Some mgr \<Rightarrow> Logger_Named (Zap mgr) s w)"

definition With :: "nat \<Rightarrow> Field list \<Rightarrow> world \<Rightarrow> world \<times> nat outcome" where
  "With m fs w =
     (case deref (managers w) m of
        None \<Rightarrow> (w, Panicked nilDereference)
      | Some mgr \<Rightarrow> Logger_With (Zap mgr) fs w)"

text \<open>The leveled methods by name, for statements about all of them.\<close>

datatype logMethod = MDebug | MInfo | MWarn | MError | MPanic | MFatal

fun severity :: "logMethod \<Rightarrow> Level" where
  "severity MDebug = DebugLevel"
| "severity MInfo = InfoLevel"
| "severity MWarn = WarnLevel"
| "severity MError = ErrorLevel"
| "severity MPanic = PanicLevel"
| "severity MFatal = FatalLevel"

fun call :: "logMethod \<Rightarrow> nat \<Rightarrow> context \<Rightarrow> string \<Rightarrow> Field list \<Rightarrow> world \<Rightarrow> world \<times> unit outcome" where
  "call MDebug = Debug"
| "call MInfo = Info"
| "call MWarn = Warn"
| "call MError = Error"
| "call MPanic = Panic"
| "call MFatal = Fatal"

text \<open>An empty world: nothing allocated, nothing written.\<close>

definition emptyWorld :: "nat \<Rightarrow> Date \<Rightarrow> world" where
  "emptyWorld t d =
     \<lparr> levels = [], loggers = [], managers = [], written = [], clock = t, rotationBase = d \<rparr>"

section \<open>Notions used to state the properties\<close>

text \<open>\<^verbatim>\<open>m.level.Level()\<close>: the threshold currently held in the manager's atomic level.\<close>

definition threshold :: "world \<Rightarrow> nat \<Rightarrow> Level option" where
  "threshold w m =
     (case deref (managers w) m of
        None \<Rightarrow> None
      | Some mgr \<Rightarrow> (case Manager.level mgr of None \<Rightarrow> None | Some p \<Rightarrow> deref (levels w) p))"

text \<open>
  A manager is gated when the core of its logger is enabled by the manager's own atomic
  level, which is how \<^verbatim>\<open>New\<close> wires the two.
\<close>

definition gated :: "world \<Rightarrow> nat \<Rightarrow> bool" where
  "gated w m =
     (case deref (managers w) m of
        None \<Rightarrow> False
      | Some mgr \<Rightarrow>
          (case deref (loggers w) (Zap mgr) of
             None \<Rightarrow> False
           | Some l \<Rightarrow>
               (case Manager.level mgr of
                  None \<Rightarrow> False
                | Some p \<Rightarrow> p < length (levels w) \<and> enab (core l) = AtomicLevel p)))"

text \<open>A client's use of one manager: a sequence of calls, each performed on the world the
  previous one left. How a call ended is not looked at: the sequence goes on after a
  panic, which a caller may recover from, and, to cover every case, after an exit.\<close>

datatype operation =
    Leveled logMethod "context" string "Field list"
  | OpNamed string
  | OpWith "Field list"
  | OpSetLevel Level

fun perform :: "nat \<Rightarrow> operation \<Rightarrow> world \<Rightarrow> world" where
  "perform m (Leveled s ctx msg fs) w = fst (call s m ctx msg fs w)"
| "perform m (OpNamed s) w = fst (Named m s w)"
| "perform m (OpWith fs) w = fst (With m fs w)"
| "perform m (OpSetLevel lv) w = fst (SetLevel m lv w)"

definition performAll :: "nat \<Rightarrow> operation list \<Rightarrow> world \<Rightarrow> world" where
  "performAll m ops w = fold (perform m) ops w"

fun isSetLevel :: "operation \<Rightarrow> bool" where
  "isSetLevel (OpSetLevel lv) = True"
| "isSetLevel _ = False"

text \<open>The logger and the core that \<^verbatim>\<open>New\<close> builds from the options, in closed form.\<close>

definition builtLogger :: "option_struct \<Rightarrow> Core \<Rightarrow> Logger" where
  "builtLogger opt c =
     \<lparr> core = c, name = '''', addCaller = True, callerSkip = option_struct.callerSkip opt,
       addStack = stacktraceLevel opt, errorOutput = Stderr \<rparr>"

definition builtCore :: "option_struct \<Rightarrow> nat \<Rightarrow> Core option" where
  "builtCore opt lvl =
     (let encoder = (if useColor opt then NewConsoleEncoder (encoderConfig opt)
                     else NewJSONEncoder (encoderConfig opt))
      in if driver opt = ''stdout'' then Some (NewCore encoder Stdout (AtomicLevel lvl))
         else if driver opt = ''file'' then
           (case newFileCore opt encoder (AtomicLevel lvl) of Inl e \<Rightarrow> None | Inr c \<Rightarrow> Some c)
         else None)"

text \<open>The pieces of a leveled call: how it ends, the entry it assembles, the field the
  trace enrichment contributes.\<close>

definition terminal :: "Level \<Rightarrow> string \<Rightarrow> unit outcome" where
  "terminal lvl msg = (if lvl = PanicLevel then Panicked msg
                        else if lvl = FatalLevel then Exited 1
                        else Returned ())"

definition entryFor :: "world \<Rightarrow> Logger \<Rightarrow> Level \<Rightarrow> string \<Rightarrow> Entry" where
  "entryFor w l lvl msg =
     \<lparr> Level = lvl, Time = clock w, LoggerName = name l, Message = msg,
       Caller = (if addCaller l then Some (Logger.callerSkip l) else None),
       Stack = (addStack l \<le> lvl) \<rparr>"

definition traceFields :: "context \<Rightarrow> Field list" where
  "traceFields ctx = (if getTraceIDFromContext ctx = '''' then []
                      else [zap_String ''TraceID'' (getTraceIDFromContext ctx)])"

definition configOf :: "Encoder \<Rightarrow> EncoderConfig" where
  "configOf e = (case e of JSONEncoder cfg \<Rightarrow> cfg | ConsoleEncoder cfg \<Rightarrow> cfg)"

text \<open>A concrete date and a concrete empty world, for the examples.\<close>

definition exampleDate :: Date where
  "exampleDate = \<lparr> year = 2026, month = 11, day = 1, other = (\<lambda>_. '''') \<rparr>"

definition exampleWorld :: world where
  "exampleWorld = emptyWorld 0 exampleDate"

text \<open>The world after the trace enrichment of a call: a clone of the logger is allocated
  when the context carries a trace identifier, and nothing changes otherwise.\<close>

definition enriched :: "world \<Rightarrow> Logger \<Rightarrow> context \<Rightarrow> world" where
  "enriched w l ctx =
     (if traceFields ctx = [] then w
      else w\<lparr>loggers := loggers w @ [l\<lparr>core := Core_With (core l) (traceFields ctx)\<rparr>]\<rparr>)"

text \<open>The world right after \<^verbatim>\<open>New()\<close> with no options, called in the empty example world.\<close>

definition defaultWorld :: world where
  "defaultWorld = fst (New [] exampleWorld)"



section \<open>Basic facts\<close>

lemmas Level_defs =
  DebugLevel_def InfoLevel_def WarnLevel_def ErrorLevel_def
  DPanicLevel_def PanicLevel_def FatalLevel_def

lemma deref_append:
  "deref (xs @ [x]) p = (if p = length xs then Some x else deref xs p)"
  by (auto simp: deref_def nth_append)

lemma deref_prefix: "deref xs p = Some x \<Longrightarrow> deref (xs @ ys) p = Some x"
  by (auto simp: deref_def nth_append split: if_splits)

lemma deref_length [simp]: "deref xs (length xs) = None"
  by (simp add: deref_def)

lemma call_leveled: "call s m ctx msg fs w = leveled (severity s) m ctx msg fs w"
  by (cases s) (simp_all add: Debug_def Info_def Warn_def Error_def Panic_def Fatal_def)

lemma fieldsOf_EncodeEntry [simp]:
  "fieldsOf (EncodeEntry e ent fs) = map (encodeField (configOf e)) fs"
  by (cases e) (simp_all add: EncodeEntry_def configOf_def)

subsection \<open>What \<^verbatim>\<open>New\<close> builds\<close>

lemma newManager_eq:
  "newManager opt c lvl w =
     (w\<lparr>loggers := loggers w @ [builtLogger opt c],
        managers := managers w @ [\<lparr> Zap = length (loggers w), level = Some lvl \<rparr>]\<rparr>,
      length (managers w))"
  by (simp add: newManager_def zap_New_def allocLogger_def builtLogger_def AddCaller_def
      AddCallerSkip_def ErrorOutput_def AddStacktrace_def)

lemma builtCore_enab:
  "builtCore opt lvl = Some c \<Longrightarrow> enab c = AtomicLevel lvl \<and> ctxFields c = []"
  by (auto simp: builtCore_def NewCore_def newFileCore_def Let_def split: if_splits sum.splits)

lemma New_unfold:
  "applyOptions opts initialOption = Inr opt \<Longrightarrow>
   New opts w0 =
     (case builtCore opt (length (levels w0)) of
        Some c \<Rightarrow>
          (w0\<lparr>levels := levels w0 @ [option_struct.level opt],
              loggers := loggers w0 @ [builtLogger opt c],
              managers := managers w0 @
                [\<lparr> Zap = length (loggers w0), level = Some (length (levels w0)) \<rparr>]\<rparr>,
           Returned (Some (length (managers w0)), None))
      | None \<Rightarrow>
          (w0\<lparr>levels := levels w0 @ [option_struct.level opt]\<rparr>,
           Returned (None,
             Some (if driver opt = ''file''
                   then ''failed to create file core: '' @
                        (case newFileCore opt
                                (if useColor opt then NewConsoleEncoder (encoderConfig opt)
                                 else NewJSONEncoder (encoderConfig opt))
                                (AtomicLevel (length (levels w0))) of
                           Inl e \<Rightarrow> e | Inr c \<Rightarrow> [])
                   else ''unknown driver: '' @ driver opt))))"
  unfolding New_def builtCore_def NewAtomicLevelAt_def newManager_eq Let_def
  by (simp split: sum.split)

lemma New_Some:
  assumes "New opts w0 = (w, Returned (Some m, e))"
  shows "\<exists>opt c. applyOptions opts initialOption = Inr opt \<and>
           builtCore opt (length (levels w0)) = Some c \<and>
           e = None \<and> m = length (managers w0) \<and>
           w = w0\<lparr>levels := levels w0 @ [option_struct.level opt],
                  loggers := loggers w0 @ [builtLogger opt c],
                  managers := managers w0 @
                    [\<lparr> Zap = length (loggers w0), level = Some (length (levels w0)) \<rparr>]\<rparr>"
proof (cases "applyOptions opts initialOption")
  case (Inl p)
  with assms show ?thesis by (simp add: New_def)
next
  case (Inr opt)
  show ?thesis
  proof (cases "builtCore opt (length (levels w0))")
    case None
    with assms Inr show ?thesis by (simp add: New_unfold)
  next
    case (Some c)
    with assms Inr show ?thesis by (auto simp add: New_unfold)
  qed
qed

subsection \<open>A leveled call in closed form\<close>

lemma Logger_log_eq:
  assumes "deref (loggers w) p = Some l"
  shows "Logger_log p lvl msg fs w =
           (case Enabled w (enab (core l)) lvl of
              None \<Rightarrow> (w, Panicked nilDereference)
            | Some en \<Rightarrow>
                ((if en then Write (out (core l))
                           (EncodeEntry (enc (core l)) (entryFor w l lvl msg)
                              (ctxFields (core l) @ fs)) w
                  else w), terminal lvl msg))"
  using assms
  by (simp add: Logger_log_def entryFor_def terminal_def Let_def split: option.split)

lemma enriched_frame [simp]:
  "managers (enriched w l ctx) = managers w"
  "levels (enriched w l ctx) = levels w"
  "written (enriched w l ctx) = written w"
  "clock (enriched w l ctx) = clock w"
  "rotationBase (enriched w l ctx) = rotationBase w"
  by (simp_all add: enriched_def)

lemma enriched_loggers:
  "\<exists>ls. loggers (enriched w l ctx) = loggers w @ ls"
  by (simp add: enriched_def)

lemma leveled_eq:
  assumes m: "deref (managers w) m = Some mgr"
      and l: "deref (loggers w) (Zap mgr) = Some l"
  shows "leveled lvl m ctx msg fs w =
           (case Enabled w (enab (core l)) lvl of
              None \<Rightarrow> (enriched w l ctx, Panicked nilDereference)
            | Some en \<Rightarrow>
                ((if en then Write (out (core l))
                           (EncodeEntry (enc (core l)) (entryFor w l lvl msg)
                              (ctxFields (core l) @ traceFields ctx @ fs)) (enriched w l ctx)
                  else enriched w l ctx), terminal lvl msg))"
proof (cases "getTraceIDFromContext ctx = ''''")
  case True
  then have g: "getLoggerWithTraceID m ctx w = (w, Returned (Zap mgr))"
    using m by (simp add: getLoggerWithTraceID_def)
  have t: "traceFields ctx = []" using True by (simp add: traceFields_def)
  show ?thesis
    by (simp add: leveled_def g Logger_log_eq [OF l] t enriched_def split: option.split)
next
  case False
  let ?l' = "l\<lparr>core := Core_With (core l) (traceFields ctx)\<rparr>"
  let ?w1 = "w\<lparr>loggers := loggers w @ [?l']\<rparr>"
  have ne: "traceFields ctx \<noteq> []"
    using False by (simp add: traceFields_def)
  have g: "getLoggerWithTraceID m ctx w = (?w1, Returned (length (loggers w)))"
    using False m l
    by (simp add: getLoggerWithTraceID_def Logger_With_def allocLogger_def traceFields_def)
  have d: "deref (loggers ?w1) (length (loggers w)) = Some ?l'" by (simp add: deref_append)
  have e: "Enabled ?w1 (enab (core ?l')) lvl = Enabled w (enab (core l)) lvl"
    by (cases "enab (core l)") (simp_all add: Enabled_def Core_With_def)
  have ent: "entryFor ?w1 ?l' lvl msg = entryFor w l lvl msg"
    by (simp add: entryFor_def)
  have w1: "enriched w l ctx = ?w1" using ne by (simp add: enriched_def)
  have "leveled lvl m ctx msg fs w = Logger_log (length (loggers w)) lvl msg fs ?w1"
    by (simp add: leveled_def g)
  also have "\<dots> = (case Enabled w (enab (core l)) lvl of
              None \<Rightarrow> (?w1, Panicked nilDereference)
            | Some en \<Rightarrow>
                ((if en then Write (out (core ?l'))
                           (EncodeEntry (enc (core ?l')) (entryFor w l lvl msg)
                              (ctxFields (core ?l') @ fs)) ?w1
                  else ?w1), terminal lvl msg))"
    by (simp only: Logger_log_eq [OF d] e ent)
  finally show ?thesis
    by (simp add: w1 Core_With_def split: option.split)
qed
lemma leveled_emitted:
  assumes m: "deref (managers w) m = Some mgr"
      and l: "deref (loggers w) (Zap mgr) = Some l"
  shows "emitted w (fst (leveled lvl m ctx msg fs w)) =
           (if Enabled w (enab (core l)) lvl = Some True
            then [(target (out (core l)) (rotationBase w),
                   EncodeEntry (enc (core l)) (entryFor w l lvl msg)
                     (ctxFields (core l) @ traceFields ctx @ fs))]
            else [])"
  by (simp add: leveled_eq [OF m l] emitted_def Write_def split: option.split)

lemma leveled_outcome:
  assumes m: "deref (managers w) m = Some mgr"
      and l: "deref (loggers w) (Zap mgr) = Some l"
  shows "snd (leveled lvl m ctx msg fs w) =
           (if Enabled w (enab (core l)) lvl = None then Panicked nilDereference
            else terminal lvl msg)"
  by (simp add: leveled_eq [OF m l] split: option.split)

lemma leveled_frame:
  assumes m: "deref (managers w) m = Some mgr"
      and l: "deref (loggers w) (Zap mgr) = Some l"
  shows "managers (fst (leveled lvl m ctx msg fs w)) = managers w"
    and "levels (fst (leveled lvl m ctx msg fs w)) = levels w"
    and "\<exists>ls. loggers (fst (leveled lvl m ctx msg fs w)) = loggers w @ ls"
    and "rotationBase (fst (leveled lvl m ctx msg fs w)) = rotationBase w"
    and "clock (fst (leveled lvl m ctx msg fs w)) = clock w"
    and "\<exists>es. written (fst (leveled lvl m ctx msg fs w)) = written w @ es"
  using enriched_loggers [of w l ctx]
  by (auto simp add: leveled_eq [OF m l] Write_def split: option.split)

subsection \<open>\<^verbatim>\<open>Named\<close>, \<^verbatim>\<open>With\<close> and \<^verbatim>\<open>SetLevel\<close> in closed form\<close>

lemma With_eq:
  assumes m: "deref (managers w) m = Some mgr"
      and l: "deref (loggers w) (Zap mgr) = Some l"
  shows "With m fs w =
           (if fs = [] then (w, Returned (Zap mgr))
            else (w\<lparr>loggers := loggers w @ [l\<lparr>core := Core_With (core l) fs\<rparr>]\<rparr>,
                  Returned (length (loggers w))))"
  using m l by (simp add: With_def Logger_With_def allocLogger_def)

lemma Named_eq:
  assumes m: "deref (managers w) m = Some mgr"
      and l: "deref (loggers w) (Zap mgr) = Some l"
  shows "Named m s w =
           (if s = [] then (w, Returned (Zap mgr))
            else (w\<lparr>loggers := loggers w @
                     [l\<lparr>name := (if name l = [] then s else name l @ ''.'' @ s)\<rparr>]\<rparr>,
                  Returned (length (loggers w))))"
  using m l by (simp add: Named_def Logger_Named_def allocLogger_def)

lemma SetLevel_eq:
  assumes m: "deref (managers w) m = Some mgr"
  shows "SetLevel m lv w =
           (case Manager.level mgr of
              None \<Rightarrow> (w, Panicked nilDereference)
            | Some p \<Rightarrow>
                (if p < length (levels w) then (w\<lparr>levels := (levels w)[p := lv]\<rparr>, Returned ())
                 else (w, Panicked nilDereference)))"
  using m by (simp add: SetLevel_def AtomicLevel_SetLevel_def)

subsection \<open>What every operation leaves alone\<close>

lemma perform_frame:
  assumes m: "deref (managers w) m = Some mgr"
      and l: "deref (loggers w) (Zap mgr) = Some l"
  shows "managers (perform m x w) = managers w"
    and "deref (loggers (perform m x w)) (Zap mgr) = Some l"
    and "\<not> isSetLevel x \<Longrightarrow> levels (perform m x w) = levels w"
    and "length (levels (perform m x w)) = length (levels w)"
    and "rotationBase (perform m x w) = rotationBase w"
proof -
  have "managers (perform m x w) = managers w \<and>
        deref (loggers (perform m x w)) (Zap mgr) = Some l \<and>
        (\<not> isSetLevel x \<longrightarrow> levels (perform m x w) = levels w) \<and>
        length (levels (perform m x w)) = length (levels w) \<and>
        rotationBase (perform m x w) = rotationBase w"
  proof (cases x)
    case (Leveled s ctx msg fs)
    from leveled_frame(3) [OF m l, of "severity s" ctx msg fs]
    obtain ls where "loggers (fst (leveled (severity s) m ctx msg fs w)) = loggers w @ ls" ..
    then show ?thesis
      using Leveled leveled_frame(1,2,4) [OF m l] deref_prefix [OF l]
      by (simp add: call_leveled)
  next
    case (OpNamed s)
    then show ?thesis using l deref_prefix [OF l] by (simp add: Named_eq [OF m l])
  next
    case (OpWith fs)
    then show ?thesis using l deref_prefix [OF l] by (simp add: With_eq [OF m l])
  next
    case (OpSetLevel lv)
    then show ?thesis using l by (simp add: SetLevel_eq [OF m] split: option.split)
  qed
  then show "managers (perform m x w) = managers w"
    and "deref (loggers (perform m x w)) (Zap mgr) = Some l"
    and "\<not> isSetLevel x \<Longrightarrow> levels (perform m x w) = levels w"
    and "length (levels (perform m x w)) = length (levels w)"
    and "rotationBase (perform m x w) = rotationBase w"
    by simp_all
qed

lemma performAll_frame:
  assumes m: "deref (managers w) m = Some mgr"
      and l: "deref (loggers w) (Zap mgr) = Some l"
  shows "managers (performAll m ops w) = managers w \<and>
         deref (loggers (performAll m ops w)) (Zap mgr) = Some l \<and>
         ((\<forall>x \<in> set ops. \<not> isSetLevel x) \<longrightarrow> levels (performAll m ops w) = levels w) \<and>
         length (levels (performAll m ops w)) = length (levels w) \<and>
         rotationBase (performAll m ops w) = rotationBase w"
  using m l unfolding performAll_def
proof (induction ops arbitrary: w)
  case Nil
  then show ?case by simp
next
  case (Cons x xs)
  have m': "deref (managers (perform m x w)) m = Some mgr"
    using perform_frame(1) [OF Cons.prems] Cons.prems(1) by simp
  have l': "deref (loggers (perform m x w)) (Zap mgr) = Some l"
    using perform_frame(2) [OF Cons.prems] .
  show ?case
    using Cons.IH [OF m' l'] perform_frame [OF Cons.prems, of x]
    by simp
qed

lemma gatedD:
  assumes "gated w m"
  obtains mgr l p where "deref (managers w) m = Some mgr" "deref (loggers w) (Zap mgr) = Some l"
    "Manager.level mgr = Some p" "p < length (levels w)" "enab (core l) = AtomicLevel p"
  using assms by (auto simp: gated_def split: option.splits)

lemma performAll_gated:
  assumes "gated w m"
  shows "gated (performAll m ops w) m"
  using assms
proof (rule gatedD)
  fix mgr l p
  assume a: "deref (managers w) m = Some mgr" "deref (loggers w) (Zap mgr) = Some l"
    "Manager.level mgr = Some p" "p < length (levels w)" "enab (core l) = AtomicLevel p"
  from performAll_frame [OF a(1,2), of ops] a show ?thesis
    by (simp add: gated_def)
qed

lemma performAll_threshold:
  assumes "gated w m" "\<forall>x \<in> set ops. \<not> isSetLevel x"
  shows "threshold (performAll m ops w) m = threshold w m"
  using assms(1)
proof (rule gatedD)
  fix mgr l p
  assume a: "deref (managers w) m = Some mgr" "deref (loggers w) (Zap mgr) = Some l"
  from performAll_frame [OF a(1,2), of ops] a assms(2) show ?thesis
    by (simp add: threshold_def split: option.split)
qed

lemma New_gated:
  assumes "New opts w0 = (w, Returned (Some m, e))"
  shows "gated w m"
proof -
  from New_Some [OF assms] obtain opt c where
    c: "builtCore opt (length (levels w0)) = Some c" and m: "m = length (managers w0)"
    and w: "w = w0\<lparr>levels := levels w0 @ [option_struct.level opt],
                  loggers := loggers w0 @ [builtLogger opt c],
                  managers := managers w0 @
                    [\<lparr> Zap = length (loggers w0), level = Some (length (levels w0)) \<rparr>]\<rparr>"
    by blast
  show ?thesis
    using builtCore_enab [OF c] by (simp add: w m gated_def builtLogger_def deref_append)
qed

lemma gated_emitted:
  assumes g: "gated w m"
  shows "\<exists>t. threshold w m = Some t \<and>
           (\<forall>s ctx msg fs. (emitted w (fst (call s m ctx msg fs w)) \<noteq> []) = (t \<le> severity s))"
  using g
proof (rule gatedD)
  fix mgr l p
  assume a: "deref (managers w) m = Some mgr" "deref (loggers w) (Zap mgr) = Some l"
    "Manager.level mgr = Some p" "p < length (levels w)" "enab (core l) = AtomicLevel p"
  have t: "threshold w m = Some (levels w ! p)"
    using a by (simp add: threshold_def deref_def)
  have "\<And>lvl. Enabled w (enab (core l)) lvl = Some (levels w ! p \<le> lvl)"
    using a by (simp add: Enabled_def deref_def)
  then show ?thesis
    using t by (simp add: call_leveled leveled_emitted [OF a(1,2)])
qed

lemma SetLevel_gated:
  assumes g: "gated w m"
  shows "snd (SetLevel m lv w) = Returned () \<and> gated (fst (SetLevel m lv w)) m \<and>
         threshold (fst (SetLevel m lv w)) m = Some lv \<and>
         written (fst (SetLevel m lv w)) = written w"
  using g
proof (rule gatedD)
  fix mgr l p
  assume a: "deref (managers w) m = Some mgr" "deref (loggers w) (Zap mgr) = Some l"
    "Manager.level mgr = Some p" "p < length (levels w)" "enab (core l) = AtomicLevel p"
  then show ?thesis
    by (simp add: SetLevel_eq [OF a(1)] gated_def threshold_def deref_def)
qed

subsection \<open>The example world\<close>

lemma New_example:
  "New [] exampleWorld =
     (\<lparr> levels = [InfoLevel],
        loggers = [builtLogger initialOption
                     (NewCore (NewJSONEncoder DefaultEncoderConfig) Stdout (AtomicLevel 0))],
        managers = [\<lparr> Zap = 0, level = Some 0 \<rparr>],
        written = [], clock = 0, rotationBase = exampleDate \<rparr>,
      Returned (Some 0, None))"
proof -
  have a: "applyOptions [] initialOption = Inr initialOption" by simp
  have b: "builtCore initialOption 0 =
             Some (NewCore (NewJSONEncoder DefaultEncoderConfig) Stdout (AtomicLevel 0))"
    by (simp add: builtCore_def initialOption_def defaultDriver_def)
  show ?thesis
    by (simp add: New_unfold [OF a] exampleWorld_def emptyWorld_def b)
       (simp add: initialOption_def defaultLevel_def)
qed

lemma defaultWorld_eq:
  "defaultWorld =
     \<lparr> levels = [InfoLevel],
       loggers = [builtLogger initialOption
                    (NewCore (NewJSONEncoder DefaultEncoderConfig) Stdout (AtomicLevel 0))],
       managers = [\<lparr> Zap = 0, level = Some 0 \<rparr>],
       written = [], clock = 0, rotationBase = exampleDate \<rparr>"
  by (simp add: defaultWorld_def New_example)

lemma New_defaultWorld: "New [] exampleWorld = (defaultWorld, Returned (Some 0, None))"
  by (simp add: defaultWorld_eq New_example)

section \<open>The level gate\<close>

text \<open>
  C1. Take a manager built by \<^verbatim>\<open>New\<close> and any sequence of calls on it. In the world that
  sequence leaves, the manager has a current threshold, and a leveled call at any
  severity emits a record if and only if the severity is at least that threshold. After
  \<^verbatim>\<open>SetLevel(newLevel)\<close>, and whatever leveled calls, \<^verbatim>\<open>Named\<close> and \<^verbatim>\<open>With\<close> follow it, the
  threshold is \<open>newLevel\<close> and every emission decision is taken against \<open>newLevel\<close>.
\<close>

theorem level_gate:
  assumes "New opts w0 = (w, Returned (Some m, None))"
  shows "\<forall>ops. let w1 = performAll m ops w in
           (\<exists>t. threshold w1 m = Some t \<and>
              (\<forall>s ctx msg fs.
                 (emitted w1 (fst (call s m ctx msg fs w1)) \<noteq> []) = (t \<le> severity s))) \<and>
           (\<forall>newLevel ops'. (\<forall>x \<in> set ops'. \<not> isSetLevel x) \<longrightarrow>
              (let w2 = performAll m ops' (fst (SetLevel m newLevel w1)) in
                 threshold w2 m = Some newLevel \<and>
                 (\<forall>s ctx msg fs.
                    (emitted w2 (fst (call s m ctx msg fs w2)) \<noteq> []) = (newLevel \<le> severity s))))"
proof (intro allI)
  fix ops
  let ?w1 = "performAll m ops w"
  have g: "gated ?w1 m" using New_gated [OF assms] by (rule performAll_gated)
  have a: "\<exists>t. threshold ?w1 m = Some t \<and>
              (\<forall>s ctx msg fs.
                 (emitted ?w1 (fst (call s m ctx msg fs ?w1)) \<noteq> []) = (t \<le> severity s))"
    by (rule gated_emitted [OF g])
  have b: "\<forall>newLevel ops'. (\<forall>x \<in> set ops'. \<not> isSetLevel x) \<longrightarrow>
              (let w2 = performAll m ops' (fst (SetLevel m newLevel ?w1)) in
                 threshold w2 m = Some newLevel \<and>
                 (\<forall>s ctx msg fs.
                    (emitted w2 (fst (call s m ctx msg fs w2)) \<noteq> []) = (newLevel \<le> severity s)))"
  proof (intro allI impI)
    fix newLevel ops'
    assume n: "\<forall>x \<in> set ops'. \<not> isSetLevel x"
    let ?w2 = "performAll m ops' (fst (SetLevel m newLevel ?w1))"
    from SetLevel_gated [OF g, of newLevel]
    have g1: "gated (fst (SetLevel m newLevel ?w1)) m"
      and t1: "threshold (fst (SetLevel m newLevel ?w1)) m = Some newLevel" by simp_all
    have t2: "threshold ?w2 m = Some newLevel"
      using performAll_threshold [OF g1 n] t1 by simp
    have g2: "gated ?w2 m" using g1 by (rule performAll_gated)
    from gated_emitted [OF g2] t2
    show "let w2 = ?w2 in
                 threshold w2 m = Some newLevel \<and>
                 (\<forall>s ctx msg fs.
                    (emitted w2 (fst (call s m ctx msg fs w2)) \<noteq> []) = (newLevel \<le> severity s))"
      by (simp add: Let_def)
  qed
  show "let w1 = ?w1 in
           (\<exists>t. threshold w1 m = Some t \<and>
              (\<forall>s ctx msg fs.
                 (emitted w1 (fst (call s m ctx msg fs w1)) \<noteq> []) = (t \<le> severity s))) \<and>
           (\<forall>newLevel ops'. (\<forall>x \<in> set ops'. \<not> isSetLevel x) \<longrightarrow>
              (let w2 = performAll m ops' (fst (SetLevel m newLevel w1)) in
                 threshold w2 m = Some newLevel \<and>
                 (\<forall>s ctx msg fs.
                    (emitted w2 (fst (call s m ctx msg fs w2)) \<noteq> []) = (newLevel \<le> severity s))))"
    unfolding Let_def using a b unfolding Let_def by blast
qed

theorem level_gate_witness:
  "New [] exampleWorld = (defaultWorld, Returned (Some 0, None)) \<and>
   threshold defaultWorld 0 = Some InfoLevel \<and>
   emitted defaultWorld (fst (Debug 0 Background ''d'' [] defaultWorld)) = [] \<and>
   emitted defaultWorld (fst (Info 0 Background ''i'' [] defaultWorld)) \<noteq> [] \<and>
   threshold (fst (Warn 0 Background ''w'' [] (fst (SetLevel 0 DebugLevel defaultWorld)))) 0
     = Some DebugLevel \<and>
   emitted (fst (SetLevel 0 DebugLevel defaultWorld))
     (fst (Debug 0 Background ''d'' [] (fst (SetLevel 0 DebugLevel defaultWorld)))) \<noteq> []"
proof -
  note g = level_gate [OF New_defaultWorld, THEN spec, of "[]", unfolded Let_def performAll_def]
  have t: "threshold defaultWorld 0 = Some InfoLevel"
    by (simp add: defaultWorld_eq threshold_def deref_def)
  from g t have e: "\<And>s ctx msg fs.
      (emitted defaultWorld (fst (call s 0 ctx msg fs defaultWorld)) \<noteq> []) = (InfoLevel \<le> severity s)"
    by auto
  have d: "emitted defaultWorld (fst (Debug 0 Background ''d'' [] defaultWorld)) = []"
    using e [of MDebug Background "''d''" "[]"] by (simp add: Level_defs)
  have i: "emitted defaultWorld (fst (Info 0 Background ''i'' [] defaultWorld)) \<noteq> []"
    using e [of MInfo Background "''i''" "[]"] by (simp add: Level_defs)
  from g have s: "\<And>newLevel ops'. (\<forall>x \<in> set ops'. \<not> isSetLevel x) \<Longrightarrow>
       threshold (fold (perform 0) ops' (fst (SetLevel 0 newLevel defaultWorld))) 0 = Some newLevel \<and>
       (\<forall>s ctx msg fs.
          (emitted (fold (perform 0) ops' (fst (SetLevel 0 newLevel defaultWorld)))
             (fst (call s 0 ctx msg fs (fold (perform 0) ops' (fst (SetLevel 0 newLevel defaultWorld))))) \<noteq> [])
          = (newLevel \<le> severity s))"
    by simp
  have w: "threshold (fst (Warn 0 Background ''w'' [] (fst (SetLevel 0 DebugLevel defaultWorld)))) 0
     = Some DebugLevel"
    using s [of "[Leveled MWarn Background ''w'' []]" DebugLevel] by simp
  have d2: "emitted (fst (SetLevel 0 DebugLevel defaultWorld))
     (fst (Debug 0 Background ''d'' [] (fst (SetLevel 0 DebugLevel defaultWorld)))) \<noteq> []"
    using s [of "[]" DebugLevel, THEN conjunct2, rule_format, of MDebug Background "''d''" "[]"]
    by simp
  show ?thesis using New_defaultWorld t d i w d2 by simp
qed

subsection \<open>Leveled calls in the example world\<close>

lemma defaultWorld_manager:
  "deref (managers defaultWorld) 0 = Some \<lparr> Zap = 0, level = Some 0 \<rparr>"
  by (simp add: defaultWorld_eq deref_def)

lemma defaultWorld_logger:
  "deref (loggers defaultWorld) (Zap \<lparr> Zap = 0, level = Some 0 \<rparr>) =
     Some (builtLogger initialOption
             (NewCore (NewJSONEncoder DefaultEncoderConfig) Stdout (AtomicLevel 0)))"
  by (simp add: defaultWorld_eq deref_def)

lemma defaultWorld_emitted:
  "emitted defaultWorld (fst (leveled lvl 0 ctx msg fs defaultWorld)) =
     (if InfoLevel \<le> lvl
      then [(StdoutStream,
             EncodeEntry (JSONEncoder DefaultEncoderConfig)
               \<lparr> Level = lvl, Time = 0, LoggerName = '''', Message = msg,
                 Caller = Some 1, Stack = (DPanicLevel \<le> lvl) \<rparr>
               (traceFields ctx @ fs))]
      else [])"
proof -
  have e: "Enabled defaultWorld (AtomicLevel 0) lvl = Some (InfoLevel \<le> lvl)"
    by (simp add: Enabled_def defaultWorld_eq deref_def)
  show ?thesis
    by (simp add: leveled_emitted [OF defaultWorld_manager defaultWorld_logger]
          builtLogger_def NewCore_def e target_def entryFor_def NewJSONEncoder_def)
       (simp add: defaultWorld_eq initialOption_def defaultCallerSkip_def
          defaultStacktraceLevel_def)
qed

lemma Value_WithValue [simp]: "Value (WithValue ctx k v) k = v"
  by (simp add: Value_def WithValue_def)

lemma Value_Background [simp]: "Value Background k = ANil"
  by (simp add: Value_def Background_def)

lemma encodeField_String [simp]: "encodeField cfg (zap_String k v) = (k, JString v)"
  by (simp add: encodeField_def zap_String_def)

lemma getLoggerWithTraceID_cong:
  "getTraceIDFromContext ctx = getTraceIDFromContext ctx' \<Longrightarrow>
   getLoggerWithTraceID m ctx w = getLoggerWithTraceID m ctx' w"
  by (simp add: getLoggerWithTraceID_def Let_def split: option.split)

lemma leveled_cong_trace:
  "getTraceIDFromContext ctx = getTraceIDFromContext ctx' \<Longrightarrow>
   leveled lvl m ctx msg fs w = leveled lvl m ctx' msg fs w"
  by (simp add: leveled_def getLoggerWithTraceID_cong [of ctx ctx'])

lemma leveled_plain:
  assumes m: "deref (managers w) m = Some mgr"
      and t: "getTraceIDFromContext ctx = ''''"
  shows "leveled lvl m ctx msg fs w = Logger_log (Zap mgr) lvl msg fs w"
  using m t by (simp add: leveled_def getLoggerWithTraceID_def)

section \<open>Trace enrichment\<close>

text \<open>
  C2. Let the manager and its logger be live objects. If the context carries a non-empty
  string \<open>v\<close> under \<^verbatim>\<open>"trace_id"\<close>, every record a leveled call with that context emits has
  the field \<^verbatim>\<open>TraceID\<close> = \<open>v\<close>. If the context carries no such value, the call is the plain
  call on \<^verbatim>\<open>Manager.Zap\<close>, unmodified: every record it emits has exactly the logger's own
  fields followed by the call's fields, hence no \<^verbatim>\<open>TraceID\<close> field unless one of those is
  keyed so.
\<close>

theorem trace_enrichment:
  assumes m: "deref (managers w) m = Some mgr"
      and l: "deref (loggers w) (Zap mgr) = Some l"
  shows "(\<forall>v. Value ctx (AString TraceIDKey) = AString v \<and> v \<noteq> '''' \<longrightarrow>
            (\<forall>x \<in> set (emitted w (fst (call s m ctx msg fs w))).
               (''TraceID'', JString v) \<in> set (fieldsOf (snd x))))
       \<and> ((\<forall>v. Value ctx (AString TraceIDKey) = AString v \<longrightarrow> v = '''') \<longrightarrow>
            call s m ctx msg fs w = Logger_log (Zap mgr) (severity s) msg fs w \<and>
            (\<forall>x \<in> set (emitted w (fst (call s m ctx msg fs w))).
               fieldsOf (snd x) =
                 map (encodeField (configOf (enc (core l)))) (ctxFields (core l) @ fs) \<and>
               (''TraceID'' \<notin> Key ` set (ctxFields (core l) @ fs) \<longrightarrow>
                ''TraceID'' \<notin> fst ` set (fieldsOf (snd x)))))"
proof (intro conjI allI impI)
  fix v
  assume v: "Value ctx (AString TraceIDKey) = AString v \<and> v \<noteq> ''''"
  then have "traceFields ctx = [zap_String ''TraceID'' v]"
    by (simp add: traceFields_def getTraceIDFromContext_def)
  then show "\<forall>x \<in> set (emitted w (fst (call s m ctx msg fs w))).
               (''TraceID'', JString v) \<in> set (fieldsOf (snd x))"
    by (simp add: call_leveled leveled_emitted [OF m l])
next
  assume a: "\<forall>v. Value ctx (AString TraceIDKey) = AString v \<longrightarrow> v = ''''"
  have t: "getTraceIDFromContext ctx = ''''"
    using a by (cases "Value ctx (AString TraceIDKey)") (simp_all add: getTraceIDFromContext_def)
  show "call s m ctx msg fs w = Logger_log (Zap mgr) (severity s) msg fs w"
    by (simp add: call_leveled leveled_plain [OF m t])
  have f: "\<forall>x \<in> set (emitted w (fst (call s m ctx msg fs w))).
               fieldsOf (snd x) =
                 map (encodeField (configOf (enc (core l)))) (ctxFields (core l) @ fs)"
    using t by (simp add: call_leveled leveled_emitted [OF m l] traceFields_def)
  have k: "fst ` set (map (encodeField (configOf (enc (core l)))) (ctxFields (core l) @ fs))
             = Key ` set (ctxFields (core l) @ fs)"
    by (force simp: encodeField_def)
  show "\<forall>x \<in> set (emitted w (fst (call s m ctx msg fs w))).
               fieldsOf (snd x) =
                 map (encodeField (configOf (enc (core l)))) (ctxFields (core l) @ fs) \<and>
               (''TraceID'' \<notin> Key ` set (ctxFields (core l) @ fs) \<longrightarrow>
                ''TraceID'' \<notin> fst ` set (fieldsOf (snd x)))"
    using f k by auto
qed

theorem trace_enrichment_witness:
  "deref (managers defaultWorld) 0 = Some \<lparr> Zap = 0, level = Some 0 \<rparr> \<and>
   emitted defaultWorld
     (fst (Info 0 (WithValue Background (AString TraceIDKey) (AString ''abc123''))
             ''hello'' [] defaultWorld)) \<noteq> [] \<and>
   (''TraceID'', JString ''abc123'') \<in>
     set (fieldsOf (snd (hd (emitted defaultWorld
       (fst (Info 0 (WithValue Background (AString TraceIDKey) (AString ''abc123''))
               ''hello'' [] defaultWorld)))))) \<and>
   emitted defaultWorld (fst (Info 0 Background ''hello'' [] defaultWorld)) \<noteq> [] \<and>
   fieldsOf (snd (hd (emitted defaultWorld (fst (Info 0 Background ''hello'' [] defaultWorld)))))
     = []"
proof -
  let ?ctx = "WithValue Background (AString TraceIDKey) (AString ''abc123'')"
  note T = trace_enrichment [OF defaultWorld_manager defaultWorld_logger]
  have e1: "emitted defaultWorld (fst (Info 0 ?ctx ''hello'' [] defaultWorld)) \<noteq> []"
    by (simp add: Info_def defaultWorld_emitted)
  have e2: "emitted defaultWorld (fst (Info 0 Background ''hello'' [] defaultWorld)) \<noteq> []"
    by (simp add: Info_def defaultWorld_emitted)
  have a: "(''TraceID'', JString ''abc123'') \<in>
     set (fieldsOf (snd (hd (emitted defaultWorld (fst (Info 0 ?ctx ''hello'' [] defaultWorld))))))"
    using T [of ?ctx MInfo "''hello''" "[]", THEN conjunct1, rule_format, of "''abc123''"
             "hd (emitted defaultWorld (fst (Info 0 ?ctx ''hello'' [] defaultWorld)))"] e1
    by simp
  have b: "fieldsOf (snd (hd (emitted defaultWorld (fst (Info 0 Background ''hello'' [] defaultWorld)))))
     = []"
    using T [of Background MInfo "''hello''" "[]", THEN conjunct2, rule_format,
             THEN conjunct2, rule_format,
             of "hd (emitted defaultWorld (fst (Info 0 Background ''hello'' [] defaultWorld)))"] e2
    by (simp add: builtLogger_def NewCore_def)
  show ?thesis using defaultWorld_manager e1 e2 a b by simp
qed

lemma gated_outcome:
  assumes "gated w m"
  shows "snd (leveled lvl m ctx msg fs w) = terminal lvl msg"
  using assms
proof (rule gatedD)
  fix mgr l p
  assume a: "deref (managers w) m = Some mgr" "deref (loggers w) (Zap mgr) = Some l"
    "Manager.level mgr = Some p" "p < length (levels w)" "enab (core l) = AtomicLevel p"
  then have "Enabled w (enab (core l)) lvl = Some (levels w ! p \<le> lvl)"
    by (simp add: Enabled_def deref_def)
  then show ?thesis
    by (simp add: leveled_outcome [OF a(1,2)])
qed

lemma defaultWorld_gated: "gated defaultWorld 0"
  by (rule New_gated [OF New_defaultWorld])

text \<open>
  C9. If the value under \<^verbatim>\<open>"trace_id"\<close> is not a string, whatever else it is, trace
  extraction returns the empty string and the call is, result and world alike, the call
  made with the empty background context. On a manager wired as \<^verbatim>\<open>New\<close> wires it the call
  ends as its level alone decides. Every record it emits has exactly the logger's own
  fields followed by the call's, so the enrichment adds no \<^verbatim>\<open>TraceID\<close> field.
\<close>

theorem non_string_trace:
  assumes "\<forall>v. Value ctx (AString TraceIDKey) \<noteq> AString v"
  shows "getTraceIDFromContext ctx = '''' \<and>
         call s m ctx msg fs w = call s m Background msg fs w \<and>
         (gated w m \<longrightarrow> snd (call s m ctx msg fs w) = terminal (severity s) msg) \<and>
         (\<forall>mgr l. deref (managers w) m = Some mgr \<and> deref (loggers w) (Zap mgr) = Some l \<longrightarrow>
            (\<forall>x \<in> set (emitted w (fst (call s m ctx msg fs w))).
               fieldsOf (snd x) =
                 map (encodeField (configOf (enc (core l)))) (ctxFields (core l) @ fs)))"
proof -
  have t: "getTraceIDFromContext ctx = ''''"
    using assms
    by (cases "Value ctx (AString TraceIDKey)") (simp_all add: getTraceIDFromContext_def)
  have b: "getTraceIDFromContext Background = ''''"
    by (simp add: getTraceIDFromContext_def)
  have c: "call s m ctx msg fs w = call s m Background msg fs w"
    using t b by (simp add: call_leveled leveled_cong_trace [of ctx Background])
  have o: "gated w m \<longrightarrow> snd (call s m ctx msg fs w) = terminal (severity s) msg"
    by (simp add: call_leveled gated_outcome)
  have d: "\<forall>mgr l. deref (managers w) m = Some mgr \<and> deref (loggers w) (Zap mgr) = Some l \<longrightarrow>
            (\<forall>x \<in> set (emitted w (fst (call s m ctx msg fs w))).
               fieldsOf (snd x) =
                 map (encodeField (configOf (enc (core l)))) (ctxFields (core l) @ fs))"
  proof (intro allI impI)
    fix mgr l
    assume a: "deref (managers w) m = Some mgr \<and> deref (loggers w) (Zap mgr) = Some l"
    from a have m: "deref (managers w) m = Some mgr"
      and l: "deref (loggers w) (Zap mgr) = Some l" by simp_all
    show "\<forall>x \<in> set (emitted w (fst (call s m ctx msg fs w))).
               fieldsOf (snd x) =
                 map (encodeField (configOf (enc (core l)))) (ctxFields (core l) @ fs)"
      using t by (simp add: call_leveled leveled_emitted [OF m l] traceFields_def)
  qed
  show ?thesis using t c o d by simp
qed

theorem non_string_trace_witness:
  "(\<forall>v. Value (WithValue Background (AString TraceIDKey) (AInt 42)) (AString TraceIDKey)
          \<noteq> AString v) \<and>
   getTraceIDFromContext (WithValue Background (AString TraceIDKey) (AInt 42)) = '''' \<and>
   snd (Info 0 (WithValue Background (AString TraceIDKey) (AInt 42)) ''hello'' [] defaultWorld)
     = Returned () \<and>
   emitted defaultWorld
     (fst (Info 0 (WithValue Background (AString TraceIDKey) (AInt 42)) ''hello'' [] defaultWorld))
     \<noteq> [] \<and>
   fieldsOf (snd (hd (emitted defaultWorld
     (fst (Info 0 (WithValue Background (AString TraceIDKey) (AInt 42)) ''hello'' []
             defaultWorld))))) = []"
proof -
  let ?ctx = "WithValue Background (AString TraceIDKey) (AInt 42)"
  have h: "\<forall>v. Value ?ctx (AString TraceIDKey) \<noteq> AString v" by simp
  note T = non_string_trace [OF h, of MInfo 0 "''hello''" "[]" defaultWorld]
  have t: "getTraceIDFromContext ?ctx = ''''" using T by simp
  have o: "snd (Info 0 ?ctx ''hello'' [] defaultWorld) = Returned ()"
    using T [THEN conjunct2, THEN conjunct2, THEN conjunct1, rule_format, OF defaultWorld_gated]
    by (simp add: terminal_def Level_defs)
  have e: "emitted defaultWorld (fst (Info 0 ?ctx ''hello'' [] defaultWorld)) \<noteq> []"
    by (simp add: Info_def defaultWorld_emitted)
  have f: "fieldsOf (snd (hd (emitted defaultWorld (fst (Info 0 ?ctx ''hello'' [] defaultWorld)))))
             = []"
    using T [THEN conjunct2, THEN conjunct2, THEN conjunct2, rule_format,
             OF conjI [OF defaultWorld_manager defaultWorld_logger],
             of "hd (emitted defaultWorld (fst (Info 0 ?ctx ''hello'' [] defaultWorld)))"] e
    by (simp add: builtLogger_def NewCore_def)
  show ?thesis using h t o e f by simp
qed

section \<open>Construction\<close>

lemma builtCore_None:
  "builtCore opt lvl = None \<longleftrightarrow>
     (driver opt \<noteq> ''stdout'' \<and>
      (driver opt = ''file'' \<longrightarrow>
         (\<exists>err. rotatelogs_New (logPath opt @ ''%Y-%m-%d.log'') (maxAge opt) (rotationTime opt)
                  = Inl err)))"
  by (auto simp: builtCore_def newFileCore_def Let_def split: sum.splits)





lemma applyOptions_panics:
  assumes "\<And>opt. f opt = Inl p"
  shows "\<exists>q. applyOptions (pre @ f # post) opt = Inl q"
proof (induction pre arbitrary: opt)
  case Nil
  then show ?case by (simp add: assms)
next
  case (Cons g pre)
  then show ?case by (cases "g opt") simp_all
qed

lemma New_panics:
  assumes "applyOptions opts initialOption = Inl q"
  shows "New opts w = (w, Panicked q)"
  using assms by (simp add: New_def)

text \<open>
  C7. A level name outside the seven recognised ones makes the \<^verbatim>\<open>WithLevel\<close> option and the
  \<^verbatim>\<open>WithStacktraceLevel\<close> option panic when applied, so that \<^verbatim>\<open>New\<close>, wherever in its option
  list one of them stands, panics and returns nothing, leaving the world as it was. An
  unknown driver name makes \<^verbatim>\<open>New\<close> return a nil manager and an error instead.
\<close>

theorem invalid_level_aborts:
  assumes "lv \<notin> {''debug'', ''info'', ''warn'', ''error'', ''dpanic'', ''panic'', ''fatal''}"
  shows "WithLevel lv opt = Inl ''invalid log level'' \<and>
         WithStacktraceLevel lv opt = Inl ''invalid log level'' \<and>
         (\<forall>pre post w. \<exists>p. New (pre @ WithLevel lv # post) w = (w, Panicked p)) \<and>
         (\<forall>pre post w. \<exists>p. New (pre @ WithStacktraceLevel lv # post) w = (w, Panicked p)) \<and>
         (\<forall>d w. d \<noteq> ''stdout'' \<and> d \<noteq> ''file'' \<longrightarrow>
            New [WithDriver d] w
              = (w\<lparr>levels := levels w @ [InfoLevel]\<rparr>,
                 Returned (None, Some (''unknown driver: '' @ d))))"
proof -
  have l: "\<And>opt. WithLevel lv opt = Inl ''invalid log level''"
    using assms by (simp add: WithLevel_def)
  have s: "\<And>opt. WithStacktraceLevel lv opt = Inl ''invalid log level''"
    using assms by (simp add: WithStacktraceLevel_def)
  have pl: "\<forall>pre post w. \<exists>p. New (pre @ WithLevel lv # post) w = (w, Panicked p)"
  proof (intro allI)
    fix pre post w
    from applyOptions_panics [of "WithLevel lv", OF l]
    obtain q where "applyOptions (pre @ WithLevel lv # post) initialOption = Inl q" by blast
    then show "\<exists>p. New (pre @ WithLevel lv # post) w = (w, Panicked p)"
      using New_panics by blast
  qed
  have ps: "\<forall>pre post w. \<exists>p. New (pre @ WithStacktraceLevel lv # post) w = (w, Panicked p)"
  proof (intro allI)
    fix pre post w
    from applyOptions_panics [of "WithStacktraceLevel lv", OF s]
    obtain q where "applyOptions (pre @ WithStacktraceLevel lv # post) initialOption = Inl q"
      by blast
    then show "\<exists>p. New (pre @ WithStacktraceLevel lv # post) w = (w, Panicked p)"
      using New_panics by blast
  qed
  have d: "\<forall>d w. d \<noteq> ''stdout'' \<and> d \<noteq> ''file'' \<longrightarrow>
            New [WithDriver d] w
              = (w\<lparr>levels := levels w @ [InfoLevel]\<rparr>,
                 Returned (None, Some (''unknown driver: '' @ d)))"
  proof (intro allI impI)
    fix d and w :: world
    assume n: "d \<noteq> ''stdout'' \<and> d \<noteq> ''file''"
    have a: "applyOptions [WithDriver d] initialOption = Inr (initialOption\<lparr>driver := d\<rparr>)"
      by (simp add: WithDriver_def)
    have b: "builtCore (initialOption\<lparr>driver := d\<rparr>) (length (levels w)) = None"
      using n by (simp add: builtCore_None)
    show "New [WithDriver d] w
              = (w\<lparr>levels := levels w @ [InfoLevel]\<rparr>,
                 Returned (None, Some (''unknown driver: '' @ d)))"
      using n by (simp add: New_unfold [OF a] b) (simp add: initialOption_def defaultLevel_def)
  qed
  show ?thesis using l s pl ps d by simp
qed

theorem invalid_level_aborts_witness:
  "''verbose'' \<notin> {''debug'', ''info'', ''warn'', ''error'', ''dpanic'', ''panic'', ''fatal''} \<and>
   WithLevel ''verbose'' initialOption = Inl ''invalid log level'' \<and>
   WithStacktraceLevel ''verbose'' initialOption = Inl ''invalid log level'' \<and>
   New [WithDriver ''file'', WithLevel ''verbose''] exampleWorld
     = (exampleWorld, Panicked ''invalid log level'') \<and>
   snd (New [WithDriver ''invalid''] exampleWorld)
     = Returned (None, Some ''unknown driver: invalid'')"
proof -
  have h: "''verbose'' \<notin> {''debug'', ''info'', ''warn'', ''error'', ''dpanic'', ''panic'', ''fatal''}"
    by simp
  note T = invalid_level_aborts [OF h]
  from T [of initialOption, THEN conjunct2, THEN conjunct2, THEN conjunct1, rule_format,
          of "[WithDriver ''file'']" "[]" exampleWorld]
  obtain p where p: "New [WithDriver ''file'', WithLevel ''verbose''] exampleWorld
                       = (exampleWorld, Panicked p)" by auto
  have "applyOptions [WithDriver ''file'', WithLevel ''verbose''] initialOption
          = Inl ''invalid log level''"
    using T [of "initialOption\<lparr>driver := ''file''\<rparr>"] by (simp add: WithDriver_def)
  then have "p = ''invalid log level''"
    using p by (simp add: New_def)
  moreover have "snd (New [WithDriver ''invalid''] exampleWorld)
     = Returned (None, Some ''unknown driver: invalid'')"
    using T [of initialOption, THEN conjunct2, THEN conjunct2, THEN conjunct2, THEN conjunct2,
             rule_format, of "''invalid''" exampleWorld]
    by simp
  ultimately show ?thesis using h p T [of initialOption] by simp
qed

text \<open>
  C8. With no options the configuration is the initial one: driver \<^verbatim>\<open>"stdout"\<close>, level
  Info, caller skip 1, a maximum age of 7 days, a rotation time of 24 hours (both in
  nanoseconds), no colour, stack traces from DPanic. \<^verbatim>\<open>New()\<close> then succeeds and builds
  exactly this: a threshold cell holding Info, and a logger with the JSON encoder over
  the default encoder configuration, writing to standard output, skipping one caller
  frame and capturing stacks from DPanic.
\<close>

theorem default_configuration:
  "applyOptions [] initialOption = Inr initialOption \<and>
   driver initialOption = ''stdout'' \<and>
   option_struct.level initialOption = InfoLevel \<and>
   option_struct.callerSkip initialOption = 1 \<and>
   maxAge initialOption = 7 * 24 * Hour \<and> maxAge initialOption = 604800000000000 \<and>
   rotationTime initialOption = 24 * Hour \<and> rotationTime initialOption = 86400000000000 \<and>
   useColor initialOption = False \<and>
   stacktraceLevel initialOption = DPanicLevel \<and>
   encoderConfig initialOption = DefaultEncoderConfig \<and>
   New [] w =
     (w\<lparr>levels := levels w @ [InfoLevel],
        loggers := loggers w @
          [\<lparr> core = \<lparr> enab = AtomicLevel (length (levels w)),
                      enc = JSONEncoder DefaultEncoderConfig, out = Stdout, ctxFields = [] \<rparr>,
             name = '''', addCaller = True, callerSkip = 1, addStack = DPanicLevel,
             errorOutput = Stderr \<rparr>],
        managers := managers w @
          [\<lparr> Zap = length (loggers w), level = Some (length (levels w)) \<rparr>]\<rparr>,
      Returned (Some (length (managers w)), None))"
proof -
  have a: "applyOptions [] initialOption = Inr initialOption" by simp
  have b: "builtCore initialOption (length (levels w)) =
             Some \<lparr> enab = AtomicLevel (length (levels w)),
                    enc = JSONEncoder DefaultEncoderConfig, out = Stdout, ctxFields = [] \<rparr>"
    by (simp add: builtCore_def initialOption_def defaultDriver_def NewCore_def
          NewJSONEncoder_def)
  have c: "builtLogger initialOption c =
             \<lparr> core = c, name = '''', addCaller = True, callerSkip = 1, addStack = DPanicLevel,
               errorOutput = Stderr \<rparr>" for c
    by (simp add: builtLogger_def initialOption_def defaultCallerSkip_def
          defaultStacktraceLevel_def)
  have d: "option_struct.level initialOption = InfoLevel"
    by (simp add: initialOption_def defaultLevel_def)
  have n: "New [] w =
     (w\<lparr>levels := levels w @ [InfoLevel],
        loggers := loggers w @
          [\<lparr> core = \<lparr> enab = AtomicLevel (length (levels w)),
                      enc = JSONEncoder DefaultEncoderConfig, out = Stdout, ctxFields = [] \<rparr>,
             name = '''', addCaller = True, callerSkip = 1, addStack = DPanicLevel,
             errorOutput = Stderr \<rparr>],
        managers := managers w @
          [\<lparr> Zap = length (loggers w), level = Some (length (levels w)) \<rparr>]\<rparr>,
      Returned (Some (length (managers w)), None))"
    by (simp add: New_unfold [OF a] b c d)
  show ?thesis
    using n
    by (simp add: initialOption_def defaultDriver_def defaultLevel_def defaultCallerSkip_def
          defaultStacktraceLevel_def Hour_def)
qed

section \<open>Destinations and encoding\<close>


lemma New_built:
  assumes a: "applyOptions opts initialOption = Inr opt"
      and n: "New opts w0 = (w, Returned (Some m, e))"
  shows "\<exists>c. builtCore opt (length (levels w0)) = Some c \<and>
           deref (managers w) m = Some \<lparr> Zap = length (loggers w0), level = Some (length (levels w0)) \<rparr> \<and>
           deref (loggers w) (length (loggers w0)) = Some (builtLogger opt c) \<and>
           threshold w m = Some (option_struct.level opt) \<and>
           written w = written w0 \<and> rotationBase w = rotationBase w0"
proof -
  from New_Some [OF n] a obtain c where
    c: "builtCore opt (length (levels w0)) = Some c" and m: "m = length (managers w0)"
    and w: "w = w0\<lparr>levels := levels w0 @ [option_struct.level opt],
                  loggers := loggers w0 @ [builtLogger opt c],
                  managers := managers w0 @
                    [\<lparr> Zap = length (loggers w0), level = Some (length (levels w0)) \<rparr>]\<rparr>"
    by auto
  show ?thesis
    using c by (simp add: w m deref_append threshold_def)
qed


lemma builtCore_enc:
  "builtCore opt lvl = Some c \<Longrightarrow>
   enc c = (if useColor opt then ConsoleEncoder (encoderConfig opt)
            else JSONEncoder (encoderConfig opt))"
  by (auto simp: builtCore_def NewCore_def newFileCore_def Let_def NewConsoleEncoder_def
        NewJSONEncoder_def split: if_splits sum.splits)




lemma map_of_rev_append_notin:
  "k \<notin> fst ` set xs \<Longrightarrow> map_of (rev (ys @ xs)) k = map_of (rev ys) k"
  by (simp add: map_add_def map_of_eq_None_iff [THEN iffD2])

lemma parsed_JSON:
  assumes "k \<notin> Key ` set fs" "k \<noteq> StacktraceKey cfg"
  shows "parsed (EncodeEntry (JSONEncoder cfg) ent fs) k = map_of (rev (jsonEntry cfg ent)) k"
proof -
  let ?tail = "map (encodeField cfg) fs
                @ (if Stack ent \<and> StacktraceKey cfg \<noteq> '''' then [(StacktraceKey cfg, JStack)]
                   else [])"
  have "fst ` set (map (encodeField cfg) fs) = Key ` set fs"
    by (force simp: encodeField_def)
  then have "k \<notin> fst ` set ?tail"
    using assms by auto
  then have "map_of (rev (jsonEntry cfg ent @ ?tail)) k = map_of (rev (jsonEntry cfg ent)) k"
    by (rule map_of_rev_append_notin)
  then show ?thesis
    by (simp add: parsed_def unmarshal_def EncodeEntry_def)
qed

lemma jsonEntry_default:
  "map_of (rev (jsonEntry DefaultEncoderConfig ent)) ''L'' = Some (JString (CapitalString (Level ent)))"
  "map_of (rev (jsonEntry DefaultEncoderConfig ent)) ''M'' = Some (JString (Message ent))"
  by (simp_all add: jsonEntry_def DefaultEncoderConfig_def CapitalLevelEncoder_def
        split: option.split)

lemma traceFields_keys: "Key ` set (traceFields ctx) \<subseteq> {''TraceID''}"
  by (simp add: traceFields_def zap_String_def)

text \<open>
  C5. Let \<^verbatim>\<open>New\<close> build a manager from options that leave colour off. Then every record any
  leveled call emits, after whatever calls, is a JSON object line, which parses. If
  moreover the encoder configuration is the default one and the level is Info or lower,
  an Info call
  emits exactly one record, and the object read back from it has \<^verbatim>\<open>"L"\<close> (the level key)
  equal to \<^verbatim>\<open>"INFO"\<close> and \<^verbatim>\<open>"M"\<close> (the message key) equal to the message, provided no field
  of the call is itself keyed \<^verbatim>\<open>"L"\<close> or \<^verbatim>\<open>"M"\<close>.
\<close>

theorem structured_output:
  assumes a: "applyOptions opts initialOption = Inr opt"
      and c: "\<not> useColor opt"
      and n: "New opts w0 = (w, Returned (Some m, None))"
  shows "(\<forall>ops s ctx msg fs.
            let w1 = performAll m ops w
            in \<forall>x \<in> set (emitted w1 (fst (call s m ctx msg fs w1))). unmarshal (snd x) \<noteq> None)
       \<and> (encoderConfig opt = DefaultEncoderConfig \<and> option_struct.level opt \<le> InfoLevel \<longrightarrow>
            (\<forall>ctx msg fs. ''L'' \<notin> Key ` set fs \<and> ''M'' \<notin> Key ` set fs \<longrightarrow>
               (\<exists>d e. emitted w (fst (Info m ctx msg fs w)) = [(d, e)] \<and> unmarshal e \<noteq> None \<and>
                  parsed e ''L'' = Some (JString ''INFO'') \<and>
                  parsed e ''M'' = Some (JString msg))))"
proof -
  let ?mgr = "\<lparr> Zap = length (loggers w0), level = Some (length (levels w0)) \<rparr>"
  from New_built [OF a n] obtain cr where
    b: "builtCore opt (length (levels w0)) = Some cr"
    and m: "deref (managers w) m = Some ?mgr"
    and l: "deref (loggers w) (Zap ?mgr) = Some (builtLogger opt cr)"
    and t: "threshold w m = Some (option_struct.level opt)"
    by auto
  have enc: "enc cr = JSONEncoder (encoderConfig opt)"
    using builtCore_enc [OF b] c by simp
  have p1: "\<forall>ops s ctx msg fs.
            let w1 = performAll m ops w
            in \<forall>x \<in> set (emitted w1 (fst (call s m ctx msg fs w1))). unmarshal (snd x) \<noteq> None"
  proof (intro allI)
    fix ops s ctx msg fs
    from performAll_frame [OF m l, of ops]
    have m1: "deref (managers (performAll m ops w)) m = Some ?mgr"
      and l1: "deref (loggers (performAll m ops w)) (Zap ?mgr) = Some (builtLogger opt cr)"
      using m by simp_all
    show "let w1 = performAll m ops w
            in \<forall>x \<in> set (emitted w1 (fst (call s m ctx msg fs w1))). unmarshal (snd x) \<noteq> None"
      unfolding Let_def
      by (simp add: call_leveled leveled_emitted [OF m1 l1] builtLogger_def enc EncodeEntry_def
            unmarshal_def)
  qed
  have p2: "encoderConfig opt = DefaultEncoderConfig \<and> option_struct.level opt \<le> InfoLevel \<longrightarrow>
            (\<forall>ctx msg fs. ''L'' \<notin> Key ` set fs \<and> ''M'' \<notin> Key ` set fs \<longrightarrow>
               (\<exists>d e. emitted w (fst (Info m ctx msg fs w)) = [(d, e)] \<and> unmarshal e \<noteq> None \<and>
                  parsed e ''L'' = Some (JString ''INFO'') \<and>
                  parsed e ''M'' = Some (JString msg)))"
  proof (intro impI allI)
    fix ctx msg fs
    assume h: "encoderConfig opt = DefaultEncoderConfig \<and> option_struct.level opt \<le> InfoLevel"
      and k: "''L'' \<notin> Key ` set fs \<and> ''M'' \<notin> Key ` set fs"
    have en: "Enabled w (enab (core (builtLogger opt cr))) InfoLevel = Some True"
      using builtCore_enab [OF b] t m h
      by (simp add: builtLogger_def Enabled_def threshold_def)
    let ?e = "EncodeEntry (JSONEncoder DefaultEncoderConfig)
                (entryFor w (builtLogger opt cr) InfoLevel msg) (traceFields ctx @ fs)"
    have em: "emitted w (fst (Info m ctx msg fs w))
                = [(target (out cr) (rotationBase w), ?e)]"
      using builtCore_enab [OF b] h
      by (simp add: Info_def leveled_emitted [OF m l] en)
         (simp add: builtLogger_def enc)
    have kL: "''L'' \<notin> Key ` set (traceFields ctx @ fs)"
      and kM: "''M'' \<notin> Key ` set (traceFields ctx @ fs)"
      using k traceFields_keys [of ctx] by auto
    have sL: "''L'' \<noteq> StacktraceKey DefaultEncoderConfig"
      and sM: "''M'' \<noteq> StacktraceKey DefaultEncoderConfig"
      by (simp_all add: DefaultEncoderConfig_def)
    have cI: "CapitalString InfoLevel = ''INFO''"
      by (simp add: CapitalString_def Level_defs)
    have L: "parsed ?e ''L'' = Some (JString ''INFO'')"
      by (simp only: parsed_JSON [OF kL sL] jsonEntry_default)
         (simp add: entryFor_def cI)
    have M: "parsed ?e ''M'' = Some (JString msg)"
      by (simp only: parsed_JSON [OF kM sM] jsonEntry_default)
         (simp add: entryFor_def)
    have J: "unmarshal ?e \<noteq> None" by (simp add: EncodeEntry_def unmarshal_def)
    show "\<exists>d e. emitted w (fst (Info m ctx msg fs w)) = [(d, e)] \<and> unmarshal e \<noteq> None \<and>
                  parsed e ''L'' = Some (JString ''INFO'') \<and>
                  parsed e ''M'' = Some (JString msg)"
      using em L M J by blast
  qed
  show ?thesis using p1 p2 by simp
qed

theorem structured_output_witness:
  "applyOptions [] initialOption = Inr initialOption \<and> \<not> useColor initialOption \<and>
   New [] exampleWorld = (defaultWorld, Returned (Some 0, None)) \<and>
   encoderConfig initialOption = DefaultEncoderConfig \<and>
   option_struct.level initialOption \<le> InfoLevel \<and>
   emitted defaultWorld
       (fst (Info 0 (WithValue Background (AString TraceIDKey) (AString ''test-trace-id''))
               ''This is an info message'' [] defaultWorld))
     = [(StdoutStream,
         JSONLine [(''L'', JString ''INFO''), (''T'', JTime 0), (''C'', JCaller 1),
                   (''M'', JString ''This is an info message'')]
                  [(''TraceID'', JString ''test-trace-id'')] [])] \<and>
   unmarshal (snd (hd (emitted defaultWorld
       (fst (Info 0 (WithValue Background (AString TraceIDKey) (AString ''test-trace-id''))
               ''This is an info message'' [] defaultWorld))))) \<noteq> None \<and>
   parsed (snd (hd (emitted defaultWorld
       (fst (Info 0 (WithValue Background (AString TraceIDKey) (AString ''test-trace-id''))
               ''This is an info message'' [] defaultWorld))))) ''L'' = Some (JString ''INFO'') \<and>
   parsed (snd (hd (emitted defaultWorld
       (fst (Info 0 (WithValue Background (AString TraceIDKey) (AString ''test-trace-id''))
               ''This is an info message'' [] defaultWorld))))) ''M''
     = Some (JString ''This is an info message'')"
proof -
  let ?ctx = "WithValue Background (AString TraceIDKey) (AString ''test-trace-id'')"
  let ?em = "emitted defaultWorld (fst (Info 0 ?ctx ''This is an info message'' [] defaultWorld))"
  have a: "applyOptions [] initialOption = Inr initialOption" by simp
  have c: "\<not> useColor initialOption" by (simp add: initialOption_def)
  have h: "encoderConfig initialOption = DefaultEncoderConfig \<and>
           option_struct.level initialOption \<le> InfoLevel"
    by (simp add: initialOption_def defaultLevel_def)
  note T = structured_output [OF a c New_defaultWorld]
  from T [THEN conjunct2, rule_format, OF h, of "[]" ?ctx "''This is an info message''"]
  obtain d e where de: "?em = [(d, e)]" "unmarshal e \<noteq> None"
      "parsed e ''L'' = Some (JString ''INFO'')"
      "parsed e ''M'' = Some (JString ''This is an info message'')"
    by auto
  have ev: "?em = [(StdoutStream,
         JSONLine [(''L'', JString ''INFO''), (''T'', JTime 0), (''C'', JCaller 1),
                   (''M'', JString ''This is an info message'')]
                  [(''TraceID'', JString ''test-trace-id'')] [])]"
    by (simp add: Info_def defaultWorld_emitted Level_defs traceFields_def
          getTraceIDFromContext_def EncodeEntry_def jsonEntry_def DefaultEncoderConfig_def
          CapitalLevelEncoder_def CapitalString_def ISO8601TimeEncoder_def
          ShortCallerEncoder_def)
  have hd: "snd (hd ?em) = e" using de(1) by simp
  show ?thesis
    using a c h New_defaultWorld ev de(2,3,4) unfolding hd by simp
qed

section \<open>File naming\<close>
















section \<open>What the calls leave unchanged\<close>

text \<open>
  C10, as the code has it. Let the manager and its logger be live objects. Whatever
  leveled calls, \<^verbatim>\<open>Named\<close> and \<^verbatim>\<open>With\<close> are made on the manager, the manager object and
  the logger it points to stay as they were, and so does every atomic level; a later
  leveled call whose context carries no trace identifier emits a record with exactly the
  logger's own fields and the call's, and no trace identifier of an earlier call.
  \<^verbatim>\<open>Named\<close> with a non-empty name and \<^verbatim>\<open>With\<close> with at least one field return a handle
  that did not exist before, on a clone that differs in the name, or in the fields;
  \<^verbatim>\<open>Named("")\<close> and \<^verbatim>\<open>With()\<close> change nothing and return \<^verbatim>\<open>Manager.Zap\<close> itself.
\<close>

theorem manager_frame:
  assumes m: "deref (managers w) m = Some mgr"
      and l: "deref (loggers w) (Zap mgr) = Some l"
  shows "(\<forall>ops. let w1 = performAll m ops w in
            managers w1 = managers w \<and>
            deref (loggers w1) (Zap mgr) = Some l \<and>
            ((\<forall>x \<in> set ops. \<not> isSetLevel x) \<longrightarrow> levels w1 = levels w) \<and>
            (\<forall>s ctx msg fs. getTraceIDFromContext ctx = '''' \<longrightarrow>
               (\<forall>x \<in> set (emitted w1 (fst (call s m ctx msg fs w1))).
                  fieldsOf (snd x) =
                    map (encodeField (configOf (enc (core l)))) (ctxFields (core l) @ fs))))
       \<and> (\<forall>s. s \<noteq> '''' \<longrightarrow>
            snd (Named m s w) = Returned (length (loggers w)) \<and>
            deref (loggers w) (length (loggers w)) = None \<and>
            deref (loggers (fst (Named m s w))) (length (loggers w))
              = Some (l\<lparr>name := (if name l = '''' then s else name l @ ''.'' @ s)\<rparr>))
       \<and> (\<forall>fs. fs \<noteq> [] \<longrightarrow>
            snd (With m fs w) = Returned (length (loggers w)) \<and>
            deref (loggers w) (length (loggers w)) = None \<and>
            deref (loggers (fst (With m fs w))) (length (loggers w))
              = Some (l\<lparr>core := Core_With (core l) fs\<rparr>))
       \<and> Named m '''' w = (w, Returned (Zap mgr))
       \<and> With m [] w = (w, Returned (Zap mgr))"
proof -
  have p1: "\<forall>ops. let w1 = performAll m ops w in
            managers w1 = managers w \<and>
            deref (loggers w1) (Zap mgr) = Some l \<and>
            ((\<forall>x \<in> set ops. \<not> isSetLevel x) \<longrightarrow> levels w1 = levels w) \<and>
            (\<forall>s ctx msg fs. getTraceIDFromContext ctx = '''' \<longrightarrow>
               (\<forall>x \<in> set (emitted w1 (fst (call s m ctx msg fs w1))).
                  fieldsOf (snd x) =
                    map (encodeField (configOf (enc (core l)))) (ctxFields (core l) @ fs)))"
  proof (intro allI)
    fix ops
    let ?w1 = "performAll m ops w"
    from performAll_frame [OF m l, of ops]
    have f: "managers ?w1 = managers w" "deref (loggers ?w1) (Zap mgr) = Some l"
      "(\<forall>x \<in> set ops. \<not> isSetLevel x) \<longrightarrow> levels ?w1 = levels w"
      by simp_all
    have m1: "deref (managers ?w1) m = Some mgr" using f(1) m by simp
    have t: "\<forall>s ctx msg fs. getTraceIDFromContext ctx = '''' \<longrightarrow>
               (\<forall>x \<in> set (emitted ?w1 (fst (call s m ctx msg fs ?w1))).
                  fieldsOf (snd x) =
                    map (encodeField (configOf (enc (core l)))) (ctxFields (core l) @ fs))"
      by (simp add: call_leveled leveled_emitted [OF m1 f(2)] traceFields_def)
    show "let w1 = ?w1 in
            managers w1 = managers w \<and>
            deref (loggers w1) (Zap mgr) = Some l \<and>
            ((\<forall>x \<in> set ops. \<not> isSetLevel x) \<longrightarrow> levels w1 = levels w) \<and>
            (\<forall>s ctx msg fs. getTraceIDFromContext ctx = '''' \<longrightarrow>
               (\<forall>x \<in> set (emitted w1 (fst (call s m ctx msg fs w1))).
                  fieldsOf (snd x) =
                    map (encodeField (configOf (enc (core l)))) (ctxFields (core l) @ fs)))"
      unfolding Let_def using f t by blast
  qed
  have p2: "\<forall>s. s \<noteq> '''' \<longrightarrow>
            snd (Named m s w) = Returned (length (loggers w)) \<and>
            deref (loggers w) (length (loggers w)) = None \<and>
            deref (loggers (fst (Named m s w))) (length (loggers w))
              = Some (l\<lparr>name := (if name l = '''' then s else name l @ ''.'' @ s)\<rparr>)"
    by (simp add: Named_eq [OF m l] deref_append)
  have p3: "\<forall>fs. fs \<noteq> [] \<longrightarrow>
            snd (With m fs w) = Returned (length (loggers w)) \<and>
            deref (loggers w) (length (loggers w)) = None \<and>
            deref (loggers (fst (With m fs w))) (length (loggers w))
              = Some (l\<lparr>core := Core_With (core l) fs\<rparr>)"
    by (simp add: With_eq [OF m l] deref_append)
  have p4: "Named m '''' w = (w, Returned (Zap mgr))"
    by (simp add: Named_eq [OF m l])
  have p5: "With m [] w = (w, Returned (Zap mgr))"
    by (simp add: With_eq [OF m l])
  show ?thesis using p1 p2 p3 p4 p5 by simp
qed

theorem manager_frame_witness:
  "deref (managers defaultWorld) 0 = Some \<lparr> Zap = 0, level = Some 0 \<rparr> \<and>
   managers (fst (Info 0 (WithValue Background (AString TraceIDKey) (AString ''abc123''))
                    ''first'' [] defaultWorld)) = managers defaultWorld \<and>
   levels (fst (Info 0 (WithValue Background (AString TraceIDKey) (AString ''abc123''))
                  ''first'' [] defaultWorld)) = levels defaultWorld \<and>
   deref (loggers (fst (Info 0 (WithValue Background (AString TraceIDKey) (AString ''abc123''))
                          ''first'' [] defaultWorld))) 0
     = deref (loggers defaultWorld) 0 \<and>
   emitted (fst (Info 0 (WithValue Background (AString TraceIDKey) (AString ''abc123''))
                   ''first'' [] defaultWorld))
     (fst (Info 0 Background ''second'' []
        (fst (Info 0 (WithValue Background (AString TraceIDKey) (AString ''abc123''))
                ''first'' [] defaultWorld)))) \<noteq> [] \<and>
   fieldsOf (snd (hd (emitted
     (fst (Info 0 (WithValue Background (AString TraceIDKey) (AString ''abc123''))
             ''first'' [] defaultWorld))
     (fst (Info 0 Background ''second'' []
        (fst (Info 0 (WithValue Background (AString TraceIDKey) (AString ''abc123''))
                ''first'' [] defaultWorld))))))) = [] \<and>
   snd (Named 0 ''sub'' defaultWorld) = Returned 1 \<and>
   deref (loggers defaultWorld) 1 = None \<and>
   snd (With 0 [zap_String ''k'' ''v''] defaultWorld) = Returned 1"
proof -
  let ?ctx = "WithValue Background (AString TraceIDKey) (AString ''abc123'')"
  note T = manager_frame [OF defaultWorld_manager defaultWorld_logger]
  have len: "length (loggers defaultWorld) = 1" by (simp add: defaultWorld_eq)
  from T [THEN conjunct1, rule_format, of "[Leveled MInfo ?ctx ''first'' []]"]
  have a: "managers (fst (Info 0 ?ctx ''first'' [] defaultWorld)) = managers defaultWorld"
    and b: "levels (fst (Info 0 ?ctx ''first'' [] defaultWorld)) = levels defaultWorld"
    and c: "deref (loggers (fst (Info 0 ?ctx ''first'' [] defaultWorld))) 0
              = deref (loggers defaultWorld) 0"
    using defaultWorld_logger by (simp_all add: Let_def performAll_def)
  from T [THEN conjunct2, THEN conjunct1, rule_format, of "''sub''"]
  have d: "snd (Named 0 ''sub'' defaultWorld) = Returned 1"
    and e: "deref (loggers defaultWorld) 1 = None"
    by (simp_all add: len)
  from T [THEN conjunct2, THEN conjunct2, THEN conjunct1, rule_format,
          of "[zap_String ''k'' ''v'']"]
  have f: "snd (With 0 [zap_String ''k'' ''v''] defaultWorld) = Returned 1"
    by (simp add: len)
  let ?W1 = "fst (Info 0 ?ctx ''first'' [] defaultWorld)"
  have W1: "?W1 = performAll 0 [Leveled MInfo ?ctx ''first'' []] defaultWorld"
    by (simp add: performAll_def)
  have g1: "gated ?W1 0"
    unfolding W1 using defaultWorld_gated by (rule performAll_gated)
  have t1: "threshold ?W1 0 = Some InfoLevel"
    unfolding W1 using performAll_threshold [OF defaultWorld_gated, of "[Leveled MInfo ?ctx ''first'' []]"]
    by (simp add: defaultWorld_eq threshold_def deref_def)
  from gated_emitted [OF g1] t1
  have al: "\<forall>s ctx msg fs. (emitted ?W1 (fst (call s 0 ctx msg fs ?W1)) \<noteq> [])
          = (InfoLevel \<le> severity s)"
    by auto
  from al [rule_format, of MInfo Background "''second''" "[]"]
  have ne: "emitted ?W1 (fst (Info 0 Background ''second'' [] ?W1)) \<noteq> []"
    by simp
  have bg: "getTraceIDFromContext Background = ''''"
    by (simp add: getTraceIDFromContext_def)
  from T [THEN conjunct1, rule_format, of "[Leveled MInfo ?ctx ''first'' []]",
          unfolded Let_def, THEN conjunct2, THEN conjunct2, THEN conjunct2, rule_format,
          OF bg, of "hd (emitted ?W1 (fst (Info 0 Background ''second'' [] ?W1)))"
             MInfo "''second''" "[]"] ne
  have nf: "fieldsOf (snd (hd (emitted ?W1 (fst (Info 0 Background ''second'' [] ?W1))))) = []"
    by (simp add: performAll_def builtLogger_def NewCore_def)
  show ?thesis using defaultWorld_manager a b c d e f ne nf by simp
qed

text \<open>
  C10, as the claim has it, fails for the empty name and the empty field list: the handle
  returned is the address the manager already holds, a logger that exists, and the world
  is unchanged.
\<close>

theorem fresh_handle_counterexample:
  "deref (managers defaultWorld) 0 = Some \<lparr> Zap = 0, level = Some 0 \<rparr> \<and>
   deref (loggers defaultWorld) 0 \<noteq> None \<and>
   Named 0 '''' defaultWorld = (defaultWorld, Returned 0) \<and>
   With 0 [] defaultWorld = (defaultWorld, Returned 0)"
  using defaultWorld_manager defaultWorld_logger
  by (simp add: Named_eq [OF defaultWorld_manager defaultWorld_logger]
        With_eq [OF defaultWorld_manager defaultWorld_logger])

end
